theory Spec2Isabelle
  imports Main
begin

section \<open>Values, records and model objects\<close>

text \<open>
  The services work on three kinds of Python values: plain records (\<open>dict\<close>) as the
  storage gateway returns them, pydantic model objects built from such records
  (\<open>ActivityExecutionOut(**result)\<close>), and the \<open>NotFoundByIdModel\<close> sentinel, told
  apart from everything else by \<open>type(x) is NotFoundByIdModel\<close>.  One datatype holds
  them all; a record is an association list in insertion order, as a Python dict is.
  \<open>VId\<close> holds the well-formed identifiers (the 24-digit hexadecimal strings that
  \<open>ObjectId\<close> accepts); any other string is a \<open>VStr\<close>.
\<close>

datatype Collections =
  ACTIVITY | ACTIVITY_EXECUTION | ARRANGEMENT | DATASET | EXPERIMENT | MEASURE
  | MEASURE_NAME | PARTICIPATION | SCENARIO | TIME_SERIES

text \<open>The \<open>source\<close> argument is a string that is only ever compared with members of
  \<open>Collections\<close>; \<open>None\<close> stands for its default, the empty string.\<close>

type_synonym source = "Collections option"

datatype model_class =
  NotFoundByIdModel | ActivityOut | ActivityExecutionOut | ArrangementOut | DatasetOut
  | ExperimentOut | MeasureOut | MeasureNameOut | ParticipationOut | ScenarioOut
  | TimeSeriesOut | OrderChangeOut

datatype val =
    VNone
  | VInt int
  | VId nat
  | VStr string
  | VDate nat
  | VDatetime nat nat
  | VList "val list"
  | VDict "(string \<times> val) list"
  | VObj model_class "(string \<times> val) list"

type_synonym fields = "(string \<times> val) list"

datatype py_error =
  KeyError string | ValueError | TypeError | AttributeError | ValidationError | InvalidId

text \<open>Sequencing of a computation that may raise: the first exception wins.\<close>

definition bindE :: "py_error + 'a \<Rightarrow> ('a \<Rightarrow> py_error + 'b) \<Rightarrow> py_error + 'b" where
  "bindE m f = (case m of Inl e \<Rightarrow> Inl e | Inr a \<Rightarrow> f a)"

text \<open>A list comprehension whose element expression may raise stops at the first
  element that does.\<close>

fun sequenceE :: "(py_error + 'a) list \<Rightarrow> py_error + 'a list" where
  "sequenceE [] = Inr []"
| "sequenceE (m # ms) =
     (case m of Inl e \<Rightarrow> Inl e
      | Inr a \<Rightarrow> (case sequenceE ms of Inl e \<Rightarrow> Inl e | Inr as \<Rightarrow> Inr (a # as)))"

text \<open>\<open>d[k]\<close>: a missing key raises \<open>KeyError\<close>, a model object or any other value is not
  subscriptable by a string.\<close>

fun subscript :: "val \<Rightarrow> string \<Rightarrow> py_error + val" where
  "subscript (VDict d) k = (case map_of d k of Some v \<Rightarrow> Inr v | None \<Rightarrow> Inl (KeyError k))"
| "subscript _ k = Inl TypeError"

text \<open>\<open>d[k] = v\<close>: an existing key keeps its position, a new key goes last.\<close>

fun upd :: "string \<Rightarrow> val \<Rightarrow> fields \<Rightarrow> fields" where
  "upd k v [] = [(k, v)]"
| "upd k v (p # ps) = (if fst p = k then (k, v) # ps else p # upd k v ps)"

fun setitem :: "val \<Rightarrow> string \<Rightarrow> val \<Rightarrow> py_error + val" where
  "setitem (VDict d) k v = Inr (VDict (upd k v d))"
| "setitem _ k v = Inl TypeError"

text \<open>\<open>del d[k]\<close>.\<close>

fun delitem :: "val \<Rightarrow> string \<Rightarrow> py_error + val" where
  "delitem (VDict d) k =
     (case map_of d k of Some v \<Rightarrow> Inr (VDict (filter (\<lambda>p. fst p \<noteq> k) d))
      | None \<Rightarrow> Inl (KeyError k))"
| "delitem _ k = Inl TypeError"

text \<open>\<open>len(x)\<close>, \<open>x[0]\<close> and iteration over a list value.\<close>

fun items :: "val \<Rightarrow> py_error + val list" where
  "items (VList xs) = Inr xs"
| "items _ = Inl TypeError"

text \<open>The receiver of a list method (\<open>.index\<close>, \<open>.insert\<close>, \<open>.remove\<close>).\<close>

fun list_of :: "val \<Rightarrow> py_error + val list" where
  "list_of (VList xs) = Inr xs"
| "list_of _ = Inl AttributeError"

text \<open>\<open>ObjectId(id)\<close>: a well-formed identifier is accepted, any other string raises
  \<open>InvalidId\<close>, a value that is not a string raises \<open>TypeError\<close>.  \<open>ObjectId(None)\<close> is a
  newly generated identifier, the identifier of no stored record; \<open>None\<close> stands for it.\<close>

fun object_id :: "val \<Rightarrow> py_error + val" where
  "object_id (VId n) = Inr (VId n)"
| "object_id VNone = Inr VNone"
| "object_id (VStr s) = Inl InvalidId"
| "object_id _ = Inl TypeError"

text \<open>\<open>obj.k\<close> on a model object: every field read in the services is declared
  \<open>Optional\<close>, so a field that was not given is \<open>None\<close>.\<close>

fun py_getattr :: "val \<Rightarrow> string \<Rightarrow> py_error + val" where
  "py_getattr (VObj c fs) k = Inr (case map_of fs k of Some v \<Rightarrow> v | None \<Rightarrow> VNone)"
| "py_getattr _ k = Inl AttributeError"

text \<open>\<open>setattr(obj, k, v)\<close>: pydantic refuses a field the model does not declare with a
  \<open>ValueError\<close>.  The entity models inherit every field of their input models; the
  sentinel declares \<open>id\<close>, \<open>errors\<close> and \<open>links\<close> only.\<close>

definition has_field :: "model_class \<Rightarrow> string \<Rightarrow> bool" where
  "has_field c k = (if c = NotFoundByIdModel then k \<in> set [''id'', ''errors'', ''links''] else True)"

fun py_setattr :: "val \<Rightarrow> string \<Rightarrow> val \<Rightarrow> py_error + val" where
  "py_setattr (VObj c fs) k v = (if has_field c k then Inr (VObj c (upd k v fs)) else Inl ValueError)"
| "py_setattr _ k v = Inl AttributeError"

text \<open>\<open>for field, value in patch.dict().items(): setattr(obj, field, value)\<close>.\<close>

fun setattrs :: "val \<Rightarrow> fields \<Rightarrow> py_error + val" where
  "setattrs obj [] = Inr obj"
| "setattrs obj (p # ps) = bindE (py_setattr obj (fst p) (snd p)) (\<lambda>obj'. setattrs obj' ps)"

text \<open>\<open>obj.dict()\<close>.  Nested model objects only occur under keys that are \<open>None\<close> in
  the objects the services call it on (reads at depth 0).\<close>

fun py_dict :: "val \<Rightarrow> py_error + fields" where
  "py_dict (VObj c fs) = Inr fs"
| "py_dict _ = Inl AttributeError"

fun is_NotFoundByIdModel :: "val \<Rightarrow> bool" where
  "is_NotFoundByIdModel (VObj c fs) = (c = NotFoundByIdModel)"
| "is_NotFoundByIdModel _ = False"

fun is_ExperimentOut :: "val \<Rightarrow> bool" where
  "is_ExperimentOut (VObj c fs) = (c = ExperimentOut)"
| "is_ExperimentOut _ = False"

definition not_found :: "val \<Rightarrow> val \<Rightarrow> val" where
  "not_found ident errors = VObj NotFoundByIdModel [(''id'', ident), (''errors'', errors)]"

definition errors_out :: "model_class \<Rightarrow> string \<Rightarrow> val" where
  "errors_out c msg = VObj c [(''errors'', VDict [(''errors'', VStr msg)])]"

text \<open>\<open>xs.index(x)\<close>, \<open>xs.insert(i, x)\<close> (for \<open>i \<ge> 0\<close>; past the end it appends) and
  \<open>xs.remove(x)\<close>.\<close>

fun list_index :: "val list \<Rightarrow> val \<Rightarrow> py_error + nat" where
  "list_index [] x = Inl ValueError"
| "list_index (y # ys) x =
     (if y = x then Inr 0 else bindE (list_index ys x) (\<lambda>i. Inr (Suc i)))"

definition list_insert :: "val list \<Rightarrow> nat \<Rightarrow> val \<Rightarrow> val list" where
  "list_insert xs i x = take i xs @ x # drop i xs"

definition list_remove :: "val list \<Rightarrow> val \<Rightarrow> py_error + val list" where
  "list_remove xs x = (if x \<in> set xs then Inr (remove1 x xs) else Inl ValueError)"


section \<open>Input models\<close>

text \<open>
  The request payloads are pydantic models of the \<open>grisera\<close> package; the services read
  the fields named below and call \<open>.dict()\<close> on them.  \<open>.dict()\<close> yields every declared
  field: the property model and the scenario model declare further fields that the
  services never read (import bookkeeping such as \<open>external_id\<close>), and their records
  carry them, with their values, as a list.  \<open>ActivityExecutionIn\<close> inherits the relation
  fields and the fields of the property model.
\<close>

record ActivityExecutionPropertyIn =
  additional_properties :: val
  other_property_fields :: fields

record ActivityExecutionRelationIn =
  activity_id :: val
  arrangement_id :: val

record ActivityExecutionIn = ActivityExecutionRelationIn +
  additional_properties :: val
  other_fields :: fields

text \<open>The fields of \<open>ScenarioIn\<close> and \<open>OrderChangeIn\<close> carry a prefix: their plain names
  (\<open>experiment_id\<close>, \<open>activity_executions\<close>, \<open>previous_id\<close>, \<open>activity_execution_id\<close>)
  are the names of arguments of the service methods.\<close>

record ScenarioIn =
  scenario_activity_executions :: "ActivityExecutionIn list"
  scenario_experiment_id :: val
  scenario_other_fields :: fields

record OrderChangeIn =
  order_previous_id :: val
  order_activity_execution_id :: val

definition property_in_dict :: "ActivityExecutionPropertyIn \<Rightarrow> fields" where
  "property_in_dict p =
     (''additional_properties'', ActivityExecutionPropertyIn.additional_properties p)
     # other_property_fields p"

definition relation_in_dict :: "ActivityExecutionRelationIn \<Rightarrow> fields" where
  "relation_in_dict r = [(''activity_id'', activity_id r), (''arrangement_id'', arrangement_id r)]"

definition activity_execution_in_dict :: "ActivityExecutionIn \<Rightarrow> fields" where
  "activity_execution_in_dict a =
     (''activity_id'', activity_id a) # (''arrangement_id'', arrangement_id a)
     # (''additional_properties'', ActivityExecutionIn.additional_properties a)
     # other_fields a"

definition scenario_in_dict :: "ScenarioIn \<Rightarrow> fields" where
  "scenario_in_dict s =
     (''activity_executions'', VList (map (\<lambda>a. VDict (activity_execution_in_dict a))
                                       (scenario_activity_executions s)))
     # (''experiment_id'', scenario_experiment_id s) # scenario_other_fields s"

text \<open>The further fields of the input models at their defaults, as \<open>.dict()\<close> yields
  them for a payload that leaves them out.\<close>

definition import_fields :: fields where
  "import_fields =
     [(''external_id'', VNone), (''import_job_id'', VNone), (''import_timestamp'', VNone)]"

section \<open>The collaborators of the services\<close>

text \<open>
  Every service holds its collaborators as attributes: the storage gateway
  (\<open>self.mongo_api_service\<close>) and the services of the other entity kinds.  None of them is
  part of the five service files, so they are parameters: one record of functions over
  an arbitrary storage state \<open>'s\<close>.  A read takes the state; a write returns the new one.
  The declarations of the output models are in the \<open>grisera\<close> package, so what pydantic
  makes of the keyword arguments of \<open>Model(**d)\<close> is a parameter as well:
  \<open>model_validate c d\<close> is the list of fields of the new object (the given ones, converted,
  and the defaults of the others), or \<open>None\<close> when the validation fails.
\<close>

type_synonym query = fields

record 's env =
  mongo_get_document :: "val \<Rightarrow> Collections \<Rightarrow> string \<Rightarrow> 's \<Rightarrow> val"
  mongo_get_documents :: "Collections \<Rightarrow> string \<Rightarrow> query \<Rightarrow> 's \<Rightarrow> val list"
  mongo_create_document_from_dict :: "val \<Rightarrow> Collections \<Rightarrow> string \<Rightarrow> 's \<Rightarrow> val \<times> 's"
  mongo_update_document :: "val \<Rightarrow> val \<Rightarrow> string \<Rightarrow> 's \<Rightarrow> 's"
  mongo_update_document_with_dict :: "Collections \<Rightarrow> val \<Rightarrow> val \<Rightarrow> string \<Rightarrow> 's \<Rightarrow> 's"
  mongo_delete_document :: "val \<Rightarrow> string \<Rightarrow> 's \<Rightarrow> 's"
  activity_get_activity :: "val \<Rightarrow> string \<Rightarrow> 's \<Rightarrow> val"
  activity_get_multiple :: "string \<Rightarrow> query \<Rightarrow> int \<Rightarrow> source \<Rightarrow> val \<Rightarrow> 's \<Rightarrow> val list"
  activity_add_activity_execution :: "ActivityExecutionIn \<Rightarrow> string \<Rightarrow> 's \<Rightarrow> fields \<times> 's"
  activity_update_activity_execution :: "val \<Rightarrow> fields \<Rightarrow> string \<Rightarrow> 's \<Rightarrow> val \<times> 's"
  arrangement_get_arrangement :: "val \<Rightarrow> string \<Rightarrow> 's \<Rightarrow> val"
  arrangement_get_single_dict :: "val \<Rightarrow> string \<Rightarrow> int \<Rightarrow> source \<Rightarrow> 's \<Rightarrow> val"
  participation_get_multiple :: "string \<Rightarrow> query \<Rightarrow> int \<Rightarrow> source \<Rightarrow> 's \<Rightarrow> val list"
  experiment_get_experiment :: "val \<Rightarrow> string \<Rightarrow> int \<Rightarrow> source \<Rightarrow> 's \<Rightarrow> val"
  time_series_get_multiple :: "string \<Rightarrow> query \<Rightarrow> int \<Rightarrow> source \<Rightarrow> 's \<Rightarrow> val list"
  measure_name_get_single_dict :: "val \<Rightarrow> string \<Rightarrow> int \<Rightarrow> source \<Rightarrow> 's \<Rightarrow> val"
  model_validate :: "model_class \<Rightarrow> fields \<Rightarrow> fields option"

text \<open>\<open>get_collection_name(self.model_out_class)\<close> for the out classes of the services.\<close>

fun get_collection_name :: "model_class \<Rightarrow> Collections" where
  "get_collection_name ActivityOut = ACTIVITY"
| "get_collection_name ActivityExecutionOut = ACTIVITY_EXECUTION"
| "get_collection_name ArrangementOut = ARRANGEMENT"
| "get_collection_name DatasetOut = DATASET"
| "get_collection_name ExperimentOut = EXPERIMENT"
| "get_collection_name MeasureOut = MEASURE"
| "get_collection_name MeasureNameOut = MEASURE_NAME"
| "get_collection_name ParticipationOut = PARTICIPATION"
| "get_collection_name ScenarioOut = SCENARIO"
| "get_collection_name TimeSeriesOut = TIME_SERIES"
| "get_collection_name _ = DATASET"

text \<open>\<open>Model(**d)\<close> needs a mapping, and raises \<open>ValidationError\<close> when the model refuses
  the arguments.\<close>

fun construct :: "'s env \<Rightarrow> model_class \<Rightarrow> val \<Rightarrow> py_error + val" where
  "construct env c (VDict d) =
     (case model_validate env c d of Some fs \<Rightarrow> Inr (VObj c fs) | None \<Rightarrow> Inl ValidationError)"
| "construct env c _ = Inl TypeError"

section \<open>GenericMongoServiceMixin\<close>

text \<open>
  The mixin is parameterised by the subclass: its \<open>model_out_class\<close> and its
  \<open>_add_related_documents\<close> hook.  The hook mutates the record in place; here it returns
  the record it leaves behind.
\<close>

type_synonym 's hook = "val \<Rightarrow> string \<Rightarrow> int \<Rightarrow> source \<Rightarrow> 's \<Rightarrow> py_error + val"

definition generic_get_multiple ::
  "'s env \<Rightarrow> 's hook \<Rightarrow> model_class \<Rightarrow> string \<Rightarrow> query \<Rightarrow> int \<Rightarrow> source \<Rightarrow> 's
     \<Rightarrow> py_error + val list" where
  "generic_get_multiple env hook model_out_class dataset_name query depth source st =
     (let collection_name = get_collection_name model_out_class;
          results_dict = mongo_get_documents env collection_name dataset_name query st
      in sequenceE (map (\<lambda>result. hook result dataset_name depth source st) results_dict))"

definition generic_get_single_dict ::
  "'s env \<Rightarrow> 's hook \<Rightarrow> model_class \<Rightarrow> val \<Rightarrow> string \<Rightarrow> int \<Rightarrow> source \<Rightarrow> 's
     \<Rightarrow> py_error + val" where
  "generic_get_single_dict env hook model_out_class ident dataset_name depth source st =
     (let collection_name = get_collection_name model_out_class;
          result_dict = mongo_get_document env ident collection_name dataset_name st
      in if is_NotFoundByIdModel result_dict then Inr result_dict
         else hook result_dict dataset_name depth source st)"

definition generic_get_single ::
  "'s env \<Rightarrow> 's hook \<Rightarrow> model_class \<Rightarrow> val \<Rightarrow> string \<Rightarrow> int \<Rightarrow> source \<Rightarrow> 's
     \<Rightarrow> py_error + val" where
  "generic_get_single env hook model_out_class ident dataset_name depth source st =
     bindE (generic_get_single_dict env hook model_out_class ident dataset_name depth source st)
       (\<lambda>result. if is_NotFoundByIdModel result then Inr result
                  else construct env model_out_class result)"

text \<open>Date-only field values become timestamps at midnight before a write.\<close>

fun normalize_date :: "val \<Rightarrow> val" where
  "normalize_date (VDate d) = VDatetime d 0"
| "normalize_date v = v"

fun normalize_dates :: "val \<Rightarrow> val" where
  "normalize_dates (VObj c fs) = VObj c (map (\<lambda>p. (fst p, normalize_date (snd p))) fs)"
| "normalize_dates v = v"

definition generic_update ::
  "'s env \<Rightarrow> 's hook \<Rightarrow> model_class \<Rightarrow> val \<Rightarrow> val \<Rightarrow> string \<Rightarrow> 's
     \<Rightarrow> (py_error + val) \<times> 's" where
  "generic_update env hook model_out_class ident updated_object dataset_name st =
     (case generic_get_single env hook model_out_class ident dataset_name 0 None st of
        Inl e \<Rightarrow> (Inl e, st)
      | Inr get_response \<Rightarrow>
          if is_NotFoundByIdModel get_response then (Inr get_response, st)
          else (let st' = mongo_update_document env ident (normalize_dates updated_object)
                            dataset_name st
                in (generic_get_single env hook model_out_class ident dataset_name 0 None st',
                    st')))"

definition generic_delete ::
  "'s env \<Rightarrow> 's hook \<Rightarrow> model_class \<Rightarrow> val \<Rightarrow> string \<Rightarrow> 's \<Rightarrow> (py_error + val) \<times> 's" where
  "generic_delete env hook model_out_class ident dataset_name st =
     (case generic_get_single env hook model_out_class ident dataset_name 0 None st of
        Inl e \<Rightarrow> (Inl e, st)
      | Inr existing_document \<Rightarrow>
          if existing_document = VNone
          then (Inr (not_found ident (VDict [(''errors'', VStr ''document with such id not found'')])),
                st)
          else (Inr existing_document,
                mongo_delete_document env existing_document dataset_name st))"

section \<open>MeasureServiceMongoDB and DatasetServiceMongoDB\<close>

text \<open>The record argument \<open>measure\<close> of the hook is written \<open>measure_dict\<close>: \<open>measure\<close> is a
  constant of HOL.\<close>

definition measure_add_related_time_series :: "'s env \<Rightarrow> 's hook" where
  "measure_add_related_time_series env measure_dict dataset_name depth source st =
     (if source \<noteq> Some TIME_SERIES
      then bindE (subscript measure_dict ''id'') (\<lambda>measure_id.
             setitem measure_dict ''time_series''
               (VList (time_series_get_multiple env dataset_name [(''measure_id'', measure_id)]
                         (depth - 1) (Some MEASURE) st)))
      else Inr measure_dict)"

definition measure_add_related_measure_name :: "'s env \<Rightarrow> 's hook" where
  "measure_add_related_measure_name env measure_dict dataset_name depth source st =
     bindE (subscript measure_dict ''measure_name_id'') (\<lambda>measure_name_id.
       let has_related_measure_name = (measure_name_id \<noteq> VNone)
       in if source \<noteq> Some MEASURE_NAME \<and> has_related_measure_name
          then setitem measure_dict ''measure_name''
                 (measure_name_get_single_dict env measure_name_id dataset_name
                    (depth - 1) (Some MEASURE) st)
          else Inr measure_dict)"

definition measure_add_related_documents :: "'s env \<Rightarrow> 's hook" where
  "measure_add_related_documents env measure_dict dataset_name depth source st =
     (if depth > 0
      then bindE (measure_add_related_time_series env measure_dict dataset_name depth source st)
             (\<lambda>measure_dict'. measure_add_related_measure_name env measure_dict' dataset_name depth source st)
      else Inr measure_dict)"

definition measure_get_measure ::
  "'s env \<Rightarrow> val \<Rightarrow> string \<Rightarrow> int \<Rightarrow> source \<Rightarrow> 's \<Rightarrow> py_error + val" where
  "measure_get_measure env measure_id dataset_name depth source st =
     generic_get_single env (measure_add_related_documents env) MeasureOut
       measure_id dataset_name depth source st"

definition measure_delete_measure ::
  "'s env \<Rightarrow> val \<Rightarrow> string \<Rightarrow> 's \<Rightarrow> (py_error + val) \<times> 's" where
  "measure_delete_measure env measure_id dataset_name st =
     generic_delete env (measure_add_related_documents env) MeasureOut measure_id dataset_name st"

definition dataset_add_related_documents :: "'s hook" where
  "dataset_add_related_documents participant dataset_name depth source st = Inr participant"

section \<open>Reading activity executions and scenarios\<close>

text \<open>
  Activity executions are embedded in activity documents, so the activity execution
  service reads them through the activity service.  Its expansion asks the scenario
  service for the scenarios of an execution, and the scenario service hydrates a
  scenario by asking the activity execution service for each execution: the two
  services are mutually recursive.  The recursion ends because a hydration passes on
  \<open>max(depth - 1, 0)\<close> and the expansion asks for scenarios only when \<open>depth > 0\<close>.
\<close>

lemma bindE_cong [fundef_cong]:
  "m = m' \<Longrightarrow> (\<And>a. m' = Inr a \<Longrightarrow> f a = f' a) \<Longrightarrow> bindE m f = bindE m' f'"
  by (cases m') (simp_all add: bindE_def)

definition ae_get_activity_projection :: "query \<Rightarrow> val" where
  "ae_get_activity_projection query =
     VDict [(''activity_executions'', if query \<noteq> [] then VDict [(''$elemMatch'', VDict query)] else VInt 1),
            (''additional_properties'', VInt 1),
            (''activity_id'', VInt 1),
            (''arrangement_id'', VInt 1)]"

definition ae_add_related_participations :: "'s env \<Rightarrow> 's hook" where
  "ae_add_related_participations env activity_execution dataset_name depth source st =
     (if source \<noteq> Some PARTICIPATION
      then bindE (subscript activity_execution ''id'') (\<lambda>ae_id.
             setitem activity_execution ''participations''
               (VList (participation_get_multiple env dataset_name
                         [(''activity_execution_id'', ae_id)] (depth - 1)
                         (Some ACTIVITY_EXECUTION) st)))
      else Inr activity_execution)"

definition ae_add_related_arrangement :: "'s env \<Rightarrow> 's hook" where
  "ae_add_related_arrangement env activity_execution dataset_name depth source st =
     bindE (subscript activity_execution ''arrangement_id'') (\<lambda>arrangement_id.
       let has_related_arrangement = (arrangement_id \<noteq> VNone)
       in if source \<noteq> Some ARRANGEMENT \<and> has_related_arrangement
          then setitem activity_execution ''arrangement''
                 (arrangement_get_single_dict env arrangement_id dataset_name (depth - 1)
                    (Some ACTIVITY_EXECUTION) st)
          else Inr activity_execution)"

definition ae_add_activity :: "val \<Rightarrow> string \<Rightarrow> int \<Rightarrow> source \<Rightarrow> val \<Rightarrow> py_error + val" where
  "ae_add_activity activity_execution dataset_name depth source activity =
     (if source \<noteq> Some ACTIVITY then setitem activity_execution ''activity'' activity
      else Inr activity_execution)"

definition scenario_add_related_documents :: "'s hook" where
  "scenario_add_related_documents experiment dataset_name depth source st = Inr experiment"

definition scenario_change_experiment_id_to_object :: "'s env \<Rightarrow> 's hook" where
  "scenario_change_experiment_id_to_object env scenario dataset_name depth source st =
     bindE (subscript scenario ''experiment_id'') (\<lambda>experiment_id.
       setitem scenario ''experiment''
         (experiment_get_experiment env experiment_id dataset_name depth source st))"

function
  ae_get_single_dict :: "'s env \<Rightarrow> val \<Rightarrow> string \<Rightarrow> int \<Rightarrow> source \<Rightarrow> 's \<Rightarrow> py_error + val"
and ae_get_single :: "'s env \<Rightarrow> val \<Rightarrow> string \<Rightarrow> int \<Rightarrow> source \<Rightarrow> 's \<Rightarrow> py_error + val"
and ae_get_activity_execution ::
  "'s env \<Rightarrow> val \<Rightarrow> string \<Rightarrow> int \<Rightarrow> source \<Rightarrow> 's \<Rightarrow> py_error + val"
and ae_add_related_documents ::
  "'s env \<Rightarrow> val \<Rightarrow> string \<Rightarrow> int \<Rightarrow> source \<Rightarrow> val \<Rightarrow> 's \<Rightarrow> py_error + val"
and ae_add_related_experiments :: "'s env \<Rightarrow> val \<Rightarrow> string \<Rightarrow> int \<Rightarrow> source \<Rightarrow> 's \<Rightarrow> py_error + val"
and scenario_get_scenario_by_activity_execution ::
  "'s env \<Rightarrow> val \<Rightarrow> string \<Rightarrow> int \<Rightarrow> bool \<Rightarrow> 's \<Rightarrow> py_error + val"
and scenario_change_ids_to_objects :: "'s env \<Rightarrow> val \<Rightarrow> string \<Rightarrow> int \<Rightarrow> 's \<Rightarrow> py_error + val"
and scenario_change_ae_ids_to_objects ::
  "'s env \<Rightarrow> val \<Rightarrow> string \<Rightarrow> int \<Rightarrow> source \<Rightarrow> 's \<Rightarrow> py_error + val"
where
  "ae_get_single_dict env ident dataset_name depth source st =
     bindE (object_id ident) (\<lambda>activity_execution_object_id.
       let activity_result =
             activity_get_multiple env dataset_name
               [(''activity_executions.id'', activity_execution_object_id)]
               (depth - 1) (Some ACTIVITY_EXECUTION)
               (ae_get_activity_projection [(''id'', activity_execution_object_id)]) st
       in case activity_result of
            [] \<Rightarrow> Inr (not_found ident (VDict [(''errors'', VStr ''activity execution not found'')]))
          | related_activity # _ \<Rightarrow>
              bindE (subscript related_activity ''activity_executions'') (\<lambda>embedded.
              bindE (items embedded) (\<lambda>executions.
                case executions of
                  [] \<Rightarrow> Inr (not_found ident
                               (VDict [(''errors'', VStr ''activity execution not found'')]))
                | activity_execution_dict # _ \<Rightarrow>
                    bindE (delitem related_activity ''activity_executions'')
                      (\<lambda>related_activity'.
                        ae_add_related_documents env activity_execution_dict dataset_name depth
                          source related_activity' st))))"
| "ae_get_single env ident dataset_name depth source st =
     bindE (ae_get_single_dict env ident dataset_name depth source st)
       (\<lambda>result. if is_NotFoundByIdModel result then Inr result
                  else construct env ActivityExecutionOut result)"
| "ae_get_activity_execution env activity_execution_id dataset_name depth source st =
     ae_get_single env activity_execution_id dataset_name depth source st"
| "ae_add_related_documents env activity_execution dataset_name depth source activity st =
     (if depth > 0
      then bindE (ae_add_related_arrangement env activity_execution dataset_name depth source st)
             (\<lambda>ae1.
           bindE (ae_add_related_experiments env ae1 dataset_name depth source st) (\<lambda>ae2.
           bindE (ae_add_related_participations env ae2 dataset_name depth source st) (\<lambda>ae3.
             ae_add_activity ae3 dataset_name depth source activity)))
      else Inr activity_execution)"
| "ae_add_related_experiments env activity_execution dataset_name depth source st =
     (if depth \<le> 0 \<or> source = Some EXPERIMENT then Inr activity_execution
      else bindE (subscript activity_execution ''id'') (\<lambda>ae_id.
           bindE (scenario_get_scenario_by_activity_execution env ae_id dataset_name depth True st)
             (\<lambda>related_scenarios.
               if is_NotFoundByIdModel related_scenarios then Inr activity_execution
               else bindE (items related_scenarios) (\<lambda>scenarios.
                    bindE (sequenceE (map (\<lambda>scenario. py_getattr scenario ''experiment'') scenarios))
                      (\<lambda>experiments.
                        setitem activity_execution ''experiments'' (VList experiments))))))"
| "scenario_get_scenario_by_activity_execution env activity_execution_id dataset_name depth
       multiple st =
     (let query = [(''activity_executions'', activity_execution_id)]
      in bindE (generic_get_multiple env scenario_add_related_documents ScenarioOut dataset_name
                  query 0 None st) (\<lambda>scenarios.
           case scenarios of
             [] \<Rightarrow> Inr (not_found activity_execution_id
                          (VStr ''Given activity execution found, but it is not assigned to any scenario''))
           | scenario # _ \<Rightarrow>
               if multiple
               then bindE (sequenceE (map (\<lambda>scenario. scenario_change_ids_to_objects env scenario
                                              dataset_name depth st) scenarios)) (\<lambda>hydrated.
                    bindE (sequenceE (map (construct env ScenarioOut) hydrated)) (\<lambda>outs.
                      Inr (VList outs)))
               else bindE (scenario_change_ids_to_objects env scenario dataset_name depth st)
                      (construct env ScenarioOut)))"
| "scenario_change_ids_to_objects env scenario dataset_name depth st =
     (let depth' = max (depth - 1) 0
      in bindE (scenario_change_ae_ids_to_objects env scenario dataset_name depth'
                  (Some ACTIVITY_EXECUTION) st) (\<lambda>scenario'.
           scenario_change_experiment_id_to_object env scenario' dataset_name depth'
             (Some EXPERIMENT) st))"
| "scenario_change_ae_ids_to_objects env scenario dataset_name depth source st =
     bindE (subscript scenario ''activity_executions'') (\<lambda>activity_execution_ids.
     bindE (items activity_execution_ids) (\<lambda>ids.
     bindE (sequenceE (map (\<lambda>ae_id. ae_get_activity_execution env ae_id dataset_name depth
                              source st) ids)) (\<lambda>objects.
       setitem scenario ''activity_executions'' (VList objects))))"
  by pat_completeness auto
termination
  apply (relation "measure (\<lambda>x. case x of
      Inl (Inl (Inl (env, i, ds, d, s, st))) \<Rightarrow> 10 * nat d + 2
    | Inl (Inl (Inr (env, i, ds, d, s, st))) \<Rightarrow> 10 * nat d + 3
    | Inl (Inr (Inl (env, i, ds, d, s, st))) \<Rightarrow> 10 * nat d + 4
    | Inl (Inr (Inr (env, a, ds, d, s, act, st))) \<Rightarrow> 10 * nat d + 1
    | Inr (Inl (Inl (env, a, ds, d, s, st))) \<Rightarrow> 10 * nat d
    | Inr (Inl (Inr (env, i, ds, d, m, st))) \<Rightarrow> 10 * nat (max (d - 1) 0) + 7
    | Inr (Inr (Inl (env, sc, ds, d, st))) \<Rightarrow> 10 * nat (max (d - 1) 0) + 6
    | Inr (Inr (Inr (env, sc, ds, d, s, st))) \<Rightarrow> 10 * nat d + 5)")
  apply simp_all
  apply (simp add: nat_diff_distrib)
  apply (subgoal_tac "0 < nat depth")
   apply arith
  apply simp
  done

declare ae_get_single_dict.simps [simp del] ae_get_single.simps [simp del]
  ae_get_activity_execution.simps [simp del] ae_add_related_documents.simps [simp del]
  ae_add_related_experiments.simps [simp del]
  scenario_get_scenario_by_activity_execution.simps [simp del]
  scenario_change_ids_to_objects.simps [simp del]
  scenario_change_ae_ids_to_objects.simps [simp del]

definition scenario_get_scenario_by_experiment ::
  "'s env \<Rightarrow> val \<Rightarrow> string \<Rightarrow> int \<Rightarrow> 's \<Rightarrow> py_error + val" where
  "scenario_get_scenario_by_experiment env experiment_id dataset_name depth st =
     (let query = [(''experiment_id'', experiment_id)]
      in bindE (generic_get_multiple env scenario_add_related_documents ScenarioOut dataset_name
                  query 0 None st) (\<lambda>scenarios.
           case scenarios of
             [] \<Rightarrow> Inr (not_found experiment_id
                          (VStr ''Given experiment found, but it is not assigned to any scenario''))
           | scenario # _ \<Rightarrow>
               bindE (scenario_change_ids_to_objects env scenario dataset_name depth st)
                 (construct env ScenarioOut)))"

text \<open>The message of the last sentinel is an f-string around \<open>element_id\<close>; only its
  fixed part is kept.\<close>

definition scenario_get_scenario_by_element_id ::
  "'s env \<Rightarrow> val \<Rightarrow> string \<Rightarrow> int \<Rightarrow> 's \<Rightarrow> py_error + val \<times> val" where
  "scenario_get_scenario_by_element_id env element_id dataset_name depth st =
     (let experiment_result = experiment_get_experiment env element_id dataset_name 0 None st
      in if \<not> is_NotFoundByIdModel experiment_result
         then bindE (scenario_get_scenario_by_experiment env element_id dataset_name depth st)
                (\<lambda>scenario. Inr (scenario, experiment_result))
         else bindE (ae_get_activity_execution env element_id dataset_name 0 None st)
                (\<lambda>activity_execution_result.
                  if \<not> is_NotFoundByIdModel activity_execution_result
                  then bindE (scenario_get_scenario_by_activity_execution env element_id
                                dataset_name depth False st)
                         (\<lambda>scenario. Inr (scenario, activity_execution_result))
                  else Inr (not_found element_id
                              (VStr ''No activity execution or expriment with given id found''),
                            VNone)))"

definition scenario_get_scenario ::
  "'s env \<Rightarrow> val \<Rightarrow> string \<Rightarrow> int \<Rightarrow> 's \<Rightarrow> py_error + val" where
  "scenario_get_scenario env element_id dataset_name depth st =
     bindE (scenario_get_scenario_by_element_id env element_id dataset_name depth st)
       (\<lambda>p. Inr (fst p))"

definition scenario_get_scenario_dict_by_scenario_id ::
  "'s env \<Rightarrow> val \<Rightarrow> string \<Rightarrow> 's \<Rightarrow> val" where
  "scenario_get_scenario_dict_by_scenario_id env scenario_id dataset_name st =
     mongo_get_document env scenario_id SCENARIO dataset_name st"

section \<open>ActivityExecutionServiceMongoDB: writes\<close>

definition ae_save_activity_execution ::
  "'s env \<Rightarrow> ActivityExecutionIn \<Rightarrow> string \<Rightarrow> 's \<Rightarrow> val \<times> 's" where
  "ae_save_activity_execution env activity_execution dataset_name st =
     (let related_activity =
            activity_get_activity env (activity_id activity_execution) dataset_name st;
          related_activity_exists = (\<not> is_NotFoundByIdModel related_activity)
      in if activity_id activity_execution \<noteq> VNone \<and> \<not> related_activity_exists
         then (errors_out ActivityExecutionOut ''given activity does not exist'', st)
         else
           (let related_arrangement =
                  arrangement_get_arrangement env (arrangement_id activity_execution)
                    dataset_name st;
                related_arrangement_exists = (\<not> is_NotFoundByIdModel related_arrangement)
            in if arrangement_id activity_execution \<noteq> VNone \<and> \<not> related_arrangement_exists
               then (errors_out ActivityExecutionOut ''given arrangement does not exist'', st)
               else (case activity_add_activity_execution env activity_execution dataset_name st
                     of (created, st') \<Rightarrow> (VObj ActivityExecutionOut created, st'))))"

definition ae_update_activity_execution ::
  "'s env \<Rightarrow> val \<Rightarrow> ActivityExecutionPropertyIn \<Rightarrow> string \<Rightarrow> 's \<Rightarrow> (py_error + val) \<times> 's" where
  "ae_update_activity_execution env activity_execution_id activity_execution dataset_name st =
     (case bindE (ae_get_activity_execution env activity_execution_id dataset_name 0 None st)
             (\<lambda>existing_activity_execution.
               bindE (setattrs existing_activity_execution (property_in_dict activity_execution))
                 py_dict) of
        Inl e \<Rightarrow> (Inl e, st)
      | Inr merged \<Rightarrow>
          (case activity_update_activity_execution env activity_execution_id merged
                  dataset_name st
           of (r, st') \<Rightarrow> (Inr r, st')))"

definition ae_update_activity_execution_relationships ::
  "'s env \<Rightarrow> val \<Rightarrow> ActivityExecutionRelationIn \<Rightarrow> string \<Rightarrow> 's \<Rightarrow> (py_error + val) \<times> 's" where
  "ae_update_activity_execution_relationships env activity_execution_id activity_execution
       dataset_name st =
     (case ae_get_activity_execution env activity_execution_id dataset_name 0 None st of
        Inl e \<Rightarrow> (Inl e, st)
      | Inr existing_activity_execution \<Rightarrow>
          if is_NotFoundByIdModel existing_activity_execution
          then (Inr existing_activity_execution, st)
          else
            (let related_activity =
                   activity_get_activity env (activity_id activity_execution) dataset_name st;
                 related_activity_exists = (\<not> is_NotFoundByIdModel related_activity)
             in if \<not> related_activity_exists
                then (Inr (errors_out ActivityExecutionOut ''given activity does not exist''), st)
                else
                  (let related_arrangement =
                         arrangement_get_arrangement env (arrangement_id activity_execution)
                           dataset_name st;
                       related_arrangement_exists = (\<not> is_NotFoundByIdModel related_arrangement)
                   in if arrangement_id activity_execution \<noteq> VNone
                         \<and> \<not> related_arrangement_exists
                      then (Inr (errors_out ActivityExecutionOut
                                   ''given arrangement does not exist''), st)
                      else
                        (case bindE (setattrs existing_activity_execution
                                       (relation_in_dict activity_execution)) py_dict of
                           Inl e \<Rightarrow> (Inl e, st)
                         | Inr merged \<Rightarrow>
                             (case activity_update_activity_execution env activity_execution_id
                                     merged dataset_name st
                              of (r, st') \<Rightarrow> (Inr r, st'))))))"

section \<open>ScenarioServiceMongoDB: the ordering subsystem\<close>

text \<open>The list comprehension of \<open>save_scenario\<close>: the embedded executions are saved
  one after the other, each in the state the previous one left.\<close>

fun scenario_save_activity_executions ::
  "'s env \<Rightarrow> ActivityExecutionIn list \<Rightarrow> string \<Rightarrow> 's \<Rightarrow> val list \<times> 's" where
  "scenario_save_activity_executions env [] dataset_name st = ([], st)"
| "scenario_save_activity_executions env (activity_execution # rest) dataset_name st =
     (case ae_save_activity_execution env activity_execution dataset_name st of
        (saved, st1) \<Rightarrow>
          (case scenario_save_activity_executions env rest dataset_name st1 of
             (saved_rest, st2) \<Rightarrow> (saved # saved_rest, st2)))"

definition scenario_save_scenario ::
  "'s env \<Rightarrow> ScenarioIn \<Rightarrow> string \<Rightarrow> 's \<Rightarrow> (py_error + val) \<times> 's" where
  "scenario_save_scenario env scenario dataset_name st =
     (let related_experiment =
            experiment_get_experiment env (scenario_experiment_id scenario) dataset_name 0 None st;
          related_experiment_exists = (\<not> is_NotFoundByIdModel related_experiment)
      in if scenario_experiment_id scenario \<noteq> VNone \<and> \<not> related_experiment_exists
         then (Inr (errors_out ScenarioOut ''given experiment does not exist''), st)
         else
           (case scenario_save_activity_executions env (scenario_activity_executions scenario)
                   dataset_name st of
              (activity_executions, st1) \<Rightarrow>
                (case sequenceE (map (\<lambda>ae. py_getattr ae ''id'') activity_executions) of
                   Inl e \<Rightarrow> (Inl e, st1)
                 | Inr activity_executions_ids \<Rightarrow>
                     (let scenario_dict =
                            upd ''activity_executions'' (VList activity_executions_ids)
                              (scenario_in_dict scenario)
                      in case mongo_create_document_from_dict env (VDict scenario_dict) SCENARIO
                                dataset_name st1 of
                           (created_scenario_id, st2) \<Rightarrow>
                             (construct env ScenarioOut
                                (VDict (upd ''activity_executions'' (VList activity_executions)
                                          scenario_dict)),
                              st2)))))"

definition scenario_put_activity_execution_after_element ::
  "'s env \<Rightarrow> val \<Rightarrow> val \<Rightarrow> string \<Rightarrow> 's \<Rightarrow> (py_error + val) \<times> 's" where
  "scenario_put_activity_execution_after_element env previous_id activity_execution_id
       dataset_name st =
     (case scenario_get_scenario_by_element_id env previous_id dataset_name 0 st of
        Inl e \<Rightarrow> (Inl e, st)
      | Inr (scenario, related_element) \<Rightarrow>
          if is_NotFoundByIdModel scenario then (Inr scenario, st)
          else
            (case bindE (py_getattr scenario ''id'') (\<lambda>scenario_id.
                    let scenario_dict =
                          scenario_get_scenario_dict_by_scenario_id env scenario_id dataset_name st;
                        is_from_experiment = is_ExperimentOut related_element
                    in bindE (if \<not> is_from_experiment
                              then bindE (subscript scenario_dict ''activity_executions'')
                                     (\<lambda>sequence. bindE (list_of sequence) (\<lambda>xs.
                                        bindE (list_index xs previous_id)
                                          (\<lambda>previous_activity_execution_index.
                                             Inr (previous_activity_execution_index + 1))))
                              else Inr 0) (\<lambda>new_activity_execution_index.
                       bindE (subscript scenario_dict ''activity_executions'') (\<lambda>sequence.
                       bindE (list_of sequence) (\<lambda>xs.
                       bindE (setitem scenario_dict ''activity_executions''
                                (VList (list_insert xs new_activity_execution_index
                                          activity_execution_id)))
                         (\<lambda>scenario_dict'. Inr (scenario_id, scenario_dict')))))) of
               Inl e \<Rightarrow> (Inl e, st)
             | Inr (scenario_id, scenario_dict') \<Rightarrow>
                 (Inr VNone,
                  mongo_update_document_with_dict env SCENARIO scenario_id scenario_dict'
                    dataset_name st)))"

definition scenario_add_activity_execution ::
  "'s env \<Rightarrow> val \<Rightarrow> ActivityExecutionIn \<Rightarrow> string \<Rightarrow> 's \<Rightarrow> (py_error + val) \<times> 's" where
  "scenario_add_activity_execution env previous_id activity_execution dataset_name st =
     (case ae_save_activity_execution env activity_execution dataset_name st of
        (saved, st1) \<Rightarrow>
          (case py_getattr saved ''id'' of
             Inl e \<Rightarrow> (Inl e, st1)
           | Inr new_activity_execution_id \<Rightarrow>
               (case scenario_put_activity_execution_after_element env previous_id
                       new_activity_execution_id dataset_name st1 of
                  (Inl e, st2) \<Rightarrow> (Inl e, st2)
                | (Inr ignored, st2) \<Rightarrow> (Inr saved, st2))))"

definition scenario_delete_activity_execution ::
  "'s env \<Rightarrow> val \<Rightarrow> string \<Rightarrow> 's \<Rightarrow> (py_error + val) \<times> 's" where
  "scenario_delete_activity_execution env activity_execution_id dataset_name st =
     (case scenario_get_scenario_by_activity_execution env activity_execution_id dataset_name
             0 False st of
        Inl e \<Rightarrow> (Inl e, st)
      | Inr scenario \<Rightarrow>
          if is_NotFoundByIdModel scenario then (Inr scenario, st)
          else
            (case bindE (py_getattr scenario ''id'') (\<lambda>scenario_id.
                    let scenario_dict =
                          scenario_get_scenario_dict_by_scenario_id env scenario_id dataset_name st
                    in bindE (subscript scenario_dict ''activity_executions'') (\<lambda>sequence.
                       bindE (list_of sequence) (\<lambda>xs.
                       bindE (list_remove xs activity_execution_id) (\<lambda>xs'.
                       bindE (setitem scenario_dict ''activity_executions'' (VList xs'))
                         (\<lambda>scenario_dict'. Inr (scenario_id, scenario_dict')))))) of
               Inl e \<Rightarrow> (Inl e, st)
             | Inr (scenario_id, scenario_dict') \<Rightarrow>
                 (let st1 = mongo_update_document_with_dict env SCENARIO scenario_id
                              scenario_dict' dataset_name st
                  in (ae_get_activity_execution env activity_execution_id dataset_name 0 None st1,
                      st1))))"

definition scenario_change_order ::
  "'s env \<Rightarrow> OrderChangeIn \<Rightarrow> string \<Rightarrow> 's \<Rightarrow> (py_error + val) \<times> 's" where
  "scenario_change_order env order_change dataset_name st =
     (if order_activity_execution_id order_change = order_previous_id order_change
      then (Inr (errors_out OrderChangeOut ''Given indexes for order change are identical''), st)
      else
        (let activity_execution_id = order_activity_execution_id order_change
         in case scenario_delete_activity_execution env activity_execution_id dataset_name st of
              (Inl e, st1) \<Rightarrow> (Inl e, st1)
            | (Inr removed, st1) \<Rightarrow>
                (let previous_id = order_previous_id order_change
                 in case scenario_put_activity_execution_after_element env previous_id
                           activity_execution_id dataset_name st1 of
                      (Inl e, st2) \<Rightarrow> (Inl e, st2)
                    | (Inr ignored, st2) \<Rightarrow> (Inr (VObj OrderChangeOut []), st2))))"

section \<open>An in-memory storage gateway and collaborators\<close>

text \<open>
  Modelled from the spec: the storage gateway (\<open>MongoApiService\<close>) and the collaborator
  services (activity, arrangement, experiment, participation, time series, measure name)
  are not among the source files.  The definitions of this section follow the gateway
  contract of the specification (section 6) over a store that holds, per dataset and
  collection, the list of its records; activity executions are embedded in the
  \<open>activity_executions\<close> array of their activity (section 3).  They give the service
  functions above a concrete world to run in.
\<close>

record store =
  documents :: "string \<Rightarrow> Collections \<Rightarrow> val list"
  next_id :: nat

text \<open>Modelled from the spec: a filter fragment \<open>{field: value}\<close> holds of a record when
  the field equals the value or is an array that contains it.\<close>

definition matches :: "query \<Rightarrow> val \<Rightarrow> bool" where
  "matches query d =
     list_all (\<lambda>c. case subscript d (fst c) of
                      Inr (VList xs) \<Rightarrow> snd c = VList xs \<or> snd c \<in> set xs
                    | Inr w \<Rightarrow> w = snd c
                    | Inl e \<Rightarrow> False) query"

definition has_id :: "val \<Rightarrow> val \<Rightarrow> bool" where
  "has_id ident d = (subscript d ''id'' = Inr ident)"

text \<open>Modelled from the spec: \<open>getDocument(id, collection, dataset) -> record | NotFound\<close>.\<close>

definition mem_get_document :: "val \<Rightarrow> Collections \<Rightarrow> string \<Rightarrow> store \<Rightarrow> val" where
  "mem_get_document ident collection dataset_name st =
     (case find (has_id ident) (documents st dataset_name collection) of
        Some d \<Rightarrow> d
      | None \<Rightarrow> not_found ident (VDict [(''errors'', VStr ''not found'')]))"

text \<open>Modelled from the spec: \<open>getDocuments(collection, dataset, filter) -> [record]\<close>.\<close>

definition mem_get_documents :: "Collections \<Rightarrow> string \<Rightarrow> query \<Rightarrow> store \<Rightarrow> val list" where
  "mem_get_documents collection dataset_name query st =
     filter (matches query) (documents st dataset_name collection)"

definition put_documents :: "string \<Rightarrow> Collections \<Rightarrow> val list \<Rightarrow> store \<Rightarrow> store" where
  "put_documents dataset_name collection ds st =
     st\<lparr>documents := (documents st)(dataset_name := (documents st dataset_name)(collection := ds))\<rparr>"

text \<open>Modelled from the spec: \<open>createDocument(entity, dataset) -> id\<close>, the identifier
  assigned by storage.\<close>

definition mem_create_document_from_dict ::
  "val \<Rightarrow> Collections \<Rightarrow> string \<Rightarrow> store \<Rightarrow> val \<times> store" where
  "mem_create_document_from_dict d collection dataset_name st =
     (let new_id = VId (next_id st);
          stored = (case d of VDict fs \<Rightarrow> VDict (upd ''id'' new_id fs) | _ \<Rightarrow> d)
      in (new_id,
          (put_documents dataset_name collection
             (documents st dataset_name collection @ [stored]) st)\<lparr>next_id := Suc (next_id st)\<rparr>))"

text \<open>Modelled from the spec: \<open>updateDocumentWithRawFields(collection, id, fields, dataset)\<close>
  sets the given fields of the record with that id.\<close>

definition set_fields :: "fields \<Rightarrow> val \<Rightarrow> val" where
  "set_fields fs d =
     (case d of VDict old \<Rightarrow> VDict (foldl (\<lambda>acc p. upd (fst p) (snd p) acc) old fs) | _ \<Rightarrow> d)"

definition mem_update_document_with_dict ::
  "Collections \<Rightarrow> val \<Rightarrow> val \<Rightarrow> string \<Rightarrow> store \<Rightarrow> store" where
  "mem_update_document_with_dict collection ident d dataset_name st =
     (case d of
        VDict fs \<Rightarrow>
          put_documents dataset_name collection
            (map (\<lambda>old. if has_id ident old then set_fields fs old else old)
               (documents st dataset_name collection)) st
      | _ \<Rightarrow> st)"

text \<open>Modelled from the spec: \<open>updateDocument(id, entity, dataset)\<close>; the collection is
  that of the entity's model.\<close>

definition mem_update_document :: "val \<Rightarrow> val \<Rightarrow> string \<Rightarrow> store \<Rightarrow> store" where
  "mem_update_document ident entity dataset_name st =
     (case entity of
        VObj c fs \<Rightarrow>
          mem_update_document_with_dict (get_collection_name c) ident (VDict fs) dataset_name st
      | _ \<Rightarrow> st)"

text \<open>Modelled from the spec: \<open>deleteDocument(entity, dataset)\<close> removes the record of
  the entity from the collection of its model.  The sentinel is the model of no
  collection: what the gateway does when handed one is not specified, and it removes
  nothing here.\<close>

definition mem_delete_document :: "val \<Rightarrow> string \<Rightarrow> store \<Rightarrow> store" where
  "mem_delete_document entity dataset_name st =
     (case entity of
        VObj c fs \<Rightarrow>
          if c = NotFoundByIdModel then st
          else put_documents dataset_name (get_collection_name c)
                 (filter (\<lambda>d. \<not> has_id (case map_of fs ''id'' of Some i \<Rightarrow> i | None \<Rightarrow> VNone) d)
                    (documents st dataset_name (get_collection_name c))) st
      | _ \<Rightarrow> st)"

text \<open>Modelled from the spec: \<open>getOne(id, dataset, depth, source)\<close> of a collaborator
  service, \<open>Entity | NotFound\<close>.  The expansion hooks of the collaborators are not in the
  source; the in-memory collaborators return the stored record at every depth.\<close>

definition mem_get_one :: "model_class \<Rightarrow> val \<Rightarrow> string \<Rightarrow> store \<Rightarrow> val" where
  "mem_get_one c ident dataset_name st =
     (case mem_get_document ident (get_collection_name c) dataset_name st of
        VDict fs \<Rightarrow> VObj c fs
      | other \<Rightarrow> other)"

text \<open>Modelled from the spec: the activity service's read of activities by a filter on
  their embedded executions (section 4.2): a condition on \<open>activity_executions.<field>\<close>
  is a condition on an embedded execution, and the projection keeps the first matching
  execution together with the projected fields of the owning activity.\<close>

definition embedded_condition :: "string \<times> val \<Rightarrow> string \<times> val" where
  "embedded_condition c = (drop (length ''activity_executions.'') (fst c), snd c)"

definition embedded_executions :: "val \<Rightarrow> val list" where
  "embedded_executions activity =
     (case subscript activity ''activity_executions'' of Inr (VList es) \<Rightarrow> es | _ \<Rightarrow> [])"

definition project_activity :: "val \<Rightarrow> query \<Rightarrow> val \<Rightarrow> val" where
  "project_activity projection query activity =
     (case (activity, projection) of
        (VDict fs, VDict proj) \<Rightarrow>
          VDict (upd ''activity_executions''
                   (VList (if query = [] then embedded_executions activity
                           else take 1 (filter (matches (map embedded_condition query))
                                          (embedded_executions activity))))
                   (filter (\<lambda>p. fst p = ''id'' \<or> fst p \<in> fst ` set proj) fs))
      | _ \<Rightarrow> activity)"

definition mem_activity_get_multiple ::
  "string \<Rightarrow> query \<Rightarrow> int \<Rightarrow> source \<Rightarrow> val \<Rightarrow> store \<Rightarrow> val list" where
  "mem_activity_get_multiple dataset_name query depth source projection st =
     map (project_activity projection query)
       (filter (\<lambda>activity. query = []
                  \<or> list_ex (matches (map embedded_condition query)) (embedded_executions activity))
          (documents st dataset_name ACTIVITY))"

text \<open>Modelled from the spec: the activity service's embedded-array insert.  The new
  execution gets the next identifier and is appended to the array of its activity.\<close>

definition add_embedded :: "val \<Rightarrow> val \<Rightarrow> val" where
  "add_embedded execution activity =
     (case activity of
        VDict fs \<Rightarrow> VDict (upd ''activity_executions''
                            (VList (embedded_executions activity @ [execution])) fs)
      | _ \<Rightarrow> activity)"

definition mem_activity_add_activity_execution ::
  "ActivityExecutionIn \<Rightarrow> string \<Rightarrow> store \<Rightarrow> fields \<times> store" where
  "mem_activity_add_activity_execution activity_execution dataset_name st =
     (let created = (''id'', VId (next_id st)) # activity_execution_in_dict activity_execution
      in (created,
          (put_documents dataset_name ACTIVITY
             (map (\<lambda>activity. if has_id (activity_id activity_execution) activity
                               then add_embedded (VDict created) activity else activity)
                (documents st dataset_name ACTIVITY)) st)\<lparr>next_id := Suc (next_id st)\<rparr>))"

text \<open>Modelled from the spec: the activity service's update of an embedded execution,
  addressed by the identifier of the execution.\<close>

definition replace_embedded :: "val \<Rightarrow> fields \<Rightarrow> val \<Rightarrow> val" where
  "replace_embedded ident new activity =
     (case activity of
        VDict fs \<Rightarrow>
          (case map_of fs ''activity_executions'' of
             Some (VList es) \<Rightarrow>
               VDict (upd ''activity_executions''
                        (VList (map (\<lambda>e. if has_id ident e then VDict new else e) es)) fs)
           | _ \<Rightarrow> activity)
      | _ \<Rightarrow> activity)"

definition mem_activity_update_activity_execution ::
  "val \<Rightarrow> fields \<Rightarrow> string \<Rightarrow> store \<Rightarrow> val \<times> store" where
  "mem_activity_update_activity_execution ident new dataset_name st =
     (VObj ActivityExecutionOut new,
      put_documents dataset_name ACTIVITY
        (map (replace_embedded ident new) (documents st dataset_name ACTIVITY)) st)"

text \<open>The output models in the in-memory world.  Every model accepts its record as
  given (declared defaults are not materialised: a field that was not given reads as
  \<open>None\<close>), with one exception that the package has: \<open>ScenarioOut\<close> does not accept model
  objects in its \<open>activity_executions\<close> field, so building it from a record whose sequence
  holds execution objects raises \<open>ValidationError\<close>; a record with an empty sequence is
  accepted.\<close>

fun is_model_object :: "val \<Rightarrow> bool" where
  "is_model_object (VObj c fs) = True"
| "is_model_object _ = False"

definition holds_model_objects :: "val option \<Rightarrow> bool" where
  "holds_model_objects v = (case v of Some (VList xs) \<Rightarrow> list_ex is_model_object xs | _ \<Rightarrow> False)"

definition mem_model_validate :: "model_class \<Rightarrow> fields \<Rightarrow> fields option" where
  "mem_model_validate c fs =
     (if c = ScenarioOut \<and> holds_model_objects (map_of fs ''activity_executions'') then None
      else Some fs)"

definition mem_env :: "store env" where
  "mem_env =
     \<lparr> mongo_get_document = mem_get_document,
       mongo_get_documents = mem_get_documents,
       mongo_create_document_from_dict = mem_create_document_from_dict,
       mongo_update_document = mem_update_document,
       mongo_update_document_with_dict = mem_update_document_with_dict,
       mongo_delete_document = mem_delete_document,
       activity_get_activity = mem_get_one ActivityOut,
       activity_get_multiple = mem_activity_get_multiple,
       activity_add_activity_execution = mem_activity_add_activity_execution,
       activity_update_activity_execution = mem_activity_update_activity_execution,
       arrangement_get_arrangement = mem_get_one ArrangementOut,
       arrangement_get_single_dict = (\<lambda>ident dataset_name depth source.
          mem_get_document ident ARRANGEMENT dataset_name),
       participation_get_multiple = (\<lambda>dataset_name query depth source.
          mem_get_documents PARTICIPATION dataset_name query),
       experiment_get_experiment = (\<lambda>ident dataset_name depth source.
          mem_get_one ExperimentOut ident dataset_name),
       time_series_get_multiple = (\<lambda>dataset_name query depth source.
          mem_get_documents TIME_SERIES dataset_name query),
       measure_name_get_single_dict = (\<lambda>ident dataset_name depth source.
          mem_get_document ident MEASURE_NAME dataset_name),
       model_validate = mem_model_validate \<rparr>"

text \<open>A small dataset to run the services on: one experiment, one activity with three
  embedded executions, one arrangement, one scenario that orders the three executions,
  and one measure with its measure name and a time series.\<close>

definition demo_execution :: "nat \<Rightarrow> val" where
  "demo_execution n =
     VDict [(''id'', VId n), (''activity_id'', VId 2), (''arrangement_id'', VId 3),
            (''additional_properties'', VNone)]"

fun demo_documents :: "Collections \<Rightarrow> val list" where
  "demo_documents EXPERIMENT = [VDict [(''id'', VId 1), (''experiment_name'', VStr ''e'')]]"
| "demo_documents ACTIVITY =
     [VDict [(''id'', VId 2), (''activity'', VStr ''a''),
             (''activity_executions'',
              VList [demo_execution 11, demo_execution 12, demo_execution 13])]]"
| "demo_documents ARRANGEMENT = [VDict [(''id'', VId 3)]]"
| "demo_documents SCENARIO =
     [VDict [(''id'', VId 5), (''experiment_id'', VId 1),
             (''activity_executions'', VList [VId 11, VId 12, VId 13])]]"
| "demo_documents MEASURE =
     [VDict [(''id'', VId 7), (''measure_name_id'', VId 8), (''datatype'', VStr ''int'')]]"
| "demo_documents MEASURE_NAME = [VDict [(''id'', VId 8), (''name'', VStr ''n'')]]"
| "demo_documents TIME_SERIES = [VDict [(''id'', VId 9), (''measure_id'', VId 7)]]"
| "demo_documents _ = []"

definition demo :: store where
  "demo = \<lparr> documents = (\<lambda>dataset_name. if dataset_name = ''ds'' then demo_documents
                                         else (\<lambda>collection. [])),
             next_id = 100 \<rparr>"

text \<open>The scenario of the dataset as stored, and its fields after hydration at depth 0.\<close>

definition demo_scenario :: val where
  "demo_scenario = VDict [(''id'', VId 5), (''experiment_id'', VId 1),
            (''activity_executions'', VList [VId 11, VId 12, VId 13])]"

definition demo_scenario_hydrated :: fields where
  "demo_scenario_hydrated =
     [(''id'', VId 5), (''experiment_id'', VId 1),
            (''activity_executions'',
             VList [VObj ActivityExecutionOut
                   [(''id'', VId 11), (''activity_id'', VId 2), (''arrangement_id'', VId 3),
                    (''additional_properties'', VNone)],
                 VObj ActivityExecutionOut
                   [(''id'', VId 12), (''activity_id'', VId 2), (''arrangement_id'', VId 3),
                    (''additional_properties'', VNone)],
                 VObj ActivityExecutionOut
                   [(''id'', VId 13), (''activity_id'', VId 2), (''arrangement_id'', VId 3),
                    (''additional_properties'', VNone)]]),
            (''experiment'', VObj ExperimentOut [(''id'', VId 1), (''experiment_name'', VStr ''e'')])]"

text \<open>The demo dataset without its scenario: no execution is assigned to a scenario.\<close>

definition demo_unassigned :: store where
  "demo_unassigned = put_documents ''ds'' SCENARIO [] demo"

section \<open>Properties\<close>

lemma bindE_Inr: "bindE (Inr a) f = f a"
  by (simp add: bindE_def)

lemma bindE_Inl: "bindE (Inl e) f = Inl e"
  by (simp add: bindE_def)

lemma is_NotFoundByIdModel_iff:
  "is_NotFoundByIdModel v \<longleftrightarrow> (\<exists>fs. v = VObj NotFoundByIdModel fs)"
  by (cases v) auto


lemma construct_Inr: "construct env c v = Inr w \<Longrightarrow> \<exists>fs. w = VObj c fs"
  by (cases v) (auto split: option.splits)

lemma ae_get_activity_execution_result:
  assumes "ae_get_activity_execution env ident ds depth source st = Inr v"
  shows "\<exists>c fs. v = VObj c fs \<and> (c = NotFoundByIdModel \<or> c = ActivityExecutionOut)"
  using assms
  by (auto simp: ae_get_activity_execution.simps ae_get_single.simps bindE_def
      is_NotFoundByIdModel_iff split: sum.splits if_splits dest: construct_Inr)

text \<open>Unfolding rules for running the services on the in-memory world.\<close>

lemmas mem_simps = import_fields_def mem_env_def mem_get_document_def mem_get_documents_def mem_get_one_def
  mem_activity_get_multiple_def mem_update_document_with_dict_def
  mem_create_document_from_dict_def mem_activity_add_activity_execution_def
  mem_activity_update_activity_execution_def put_documents_def set_fields_def
  project_activity_def embedded_executions_def embedded_condition_def add_embedded_def
  replace_embedded_def matches_def has_id_def not_found_def demo_def demo_execution_def
  mem_model_validate_def holds_model_objects_def demo_unassigned_def

lemmas read_simps = ae_get_activity_execution.simps ae_get_single.simps
  ae_get_single_dict.simps ae_add_related_documents.simps ae_add_related_experiments.simps
  scenario_get_scenario_by_activity_execution.simps scenario_change_ids_to_objects.simps
  scenario_change_ae_ids_to_objects.simps ae_get_activity_projection_def
  ae_add_related_arrangement_def ae_add_related_participations_def ae_add_activity_def
  scenario_change_experiment_id_to_object_def scenario_add_related_documents_def
  generic_get_multiple_def bindE_def

lemma demo_execution_12:
  "ae_get_activity_execution mem_env (VId 12) ''ds'' 0 None demo
     = Inr (VObj ActivityExecutionOut
              [(''id'', VId 12), (''activity_id'', VId 2), (''arrangement_id'', VId 3),
               (''additional_properties'', VNone)])"
  by (simp add: read_simps mem_simps)

lemma demo_execution_66:
  "ae_get_activity_execution mem_env (VId 66) ''ds'' 0 None demo
     = Inr (not_found (VId 66) (VDict [(''errors'', VStr ''activity execution not found'')]))"
  by (simp add: read_simps mem_simps)

subsection \<open>Generic delete\<close>

text \<open>
  Claim C3 (what the code does where the claim fails).  \<open>delete\<close> re-fetches the entity
  with \<open>get_single\<close>, which answers a missing id with the \<open>NotFoundByIdModel\<close> sentinel,
  never with \<open>None\<close>.  The guard of \<open>delete\<close> tests \<open>is None\<close>, so for a missing id it does
  not fire: whatever the gateway is, \<open>delete_document\<close> is called with the sentinel as the
  entity, and the sentinel that the fetch produced is returned.
\<close>

theorem generic_delete_missing_id:
  assumes "mongo_get_document env ident (get_collection_name c) ds st = nf"
    and "is_NotFoundByIdModel nf"
  shows "generic_delete env hook c ident ds st = (Inr nf, mongo_delete_document env nf ds st)"
  using assms
  by (auto simp: generic_delete_def generic_get_single_def generic_get_single_dict_def
      bindE_def is_NotFoundByIdModel_iff)

theorem generic_delete_missing_id_witness:
  "is_NotFoundByIdModel (mem_get_document (VId 99) MEASURE ''ds'' demo)
   \<and> generic_delete mem_env (measure_add_related_documents mem_env) MeasureOut (VId 99) ''ds'' demo
       = (Inr (mem_get_document (VId 99) MEASURE ''ds'' demo),
          mem_delete_document (mem_get_document (VId 99) MEASURE ''ds'' demo) ''ds'' demo)"
proof -
  have nf: "is_NotFoundByIdModel (mem_get_document (VId 99) MEASURE ''ds'' demo)"
    by (simp add: mem_get_document_def demo_def has_id_def not_found_def)
  have get: "mongo_get_document mem_env (VId 99) (get_collection_name MeasureOut) ''ds'' demo
      = mem_get_document (VId 99) MEASURE ''ds'' demo"
    by (simp add: mem_env_def)
  show ?thesis
    using generic_delete_missing_id [OF get nf, of "measure_add_related_documents mem_env"] nf
    by (simp add: mem_env_def)
qed

subsection \<open>Reorder with identical identifiers\<close>

text \<open>
  Claim C5.  When the execution id of an order-change request equals its previous id,
  \<open>change_order\<close> returns an \<open>OrderChangeOut\<close> that carries an error payload, and the
  storage state it leaves is the state it was given: no gateway or collaborator write is
  reached, so every scenario keeps its sequence.
\<close>

theorem change_order_self_reference:
  assumes "order_activity_execution_id order_change = order_previous_id order_change"
  shows "scenario_change_order env order_change dataset_name st =
    (Inr (errors_out OrderChangeOut ''Given indexes for order change are identical''), st)"
  using assms by (simp add: scenario_change_order_def)

theorem change_order_self_reference_witness:
  "order_activity_execution_id \<lparr>order_previous_id = VId 11, order_activity_execution_id = VId 11\<rparr>
     = order_previous_id \<lparr>order_previous_id = VId 11, order_activity_execution_id = VId 11\<rparr>
   \<and> scenario_change_order mem_env
        \<lparr>order_previous_id = VId 11, order_activity_execution_id = VId 11\<rparr> ''ds'' demo
      = (Inr (VObj OrderChangeOut
                [(''errors'',
                  VDict [(''errors'', VStr ''Given indexes for order change are identical'')])]),
         demo)"
  using change_order_self_reference
    [of "\<lparr>order_previous_id = VId 11, order_activity_execution_id = VId 11\<rparr>" mem_env "''ds''" demo]
  by (simp add: errors_out_def)

subsection \<open>Validation on save\<close>

text \<open>
  Claim C6.  When the activity id of a new execution is not \<open>None\<close> and resolves to no
  activity, or its arrangement id is not \<open>None\<close> and resolves to no arrangement,
  \<open>save_activity_execution\<close> returns an \<open>ActivityExecutionOut\<close> that carries an error
  payload and leaves the storage state as it was.  The result is the same whatever the
  embedded-array insert of the activity service is: the insert is not invoked.
\<close>

theorem save_activity_execution_rejects_missing_relation:
  assumes "(activity_id ae \<noteq> VNone
              \<and> is_NotFoundByIdModel (activity_get_activity env (activity_id ae) ds st))
           \<or> (arrangement_id ae \<noteq> VNone
              \<and> is_NotFoundByIdModel (arrangement_get_arrangement env (arrangement_id ae) ds st))"
  shows "\<forall>add. ae_save_activity_execution (env\<lparr>activity_add_activity_execution := add\<rparr>) ae ds st
           = (errors_out ActivityExecutionOut
                (if activity_id ae \<noteq> VNone
                    \<and> is_NotFoundByIdModel (activity_get_activity env (activity_id ae) ds st)
                 then ''given activity does not exist''
                 else ''given arrangement does not exist''), st)"
  using assms
  by (auto simp: ae_save_activity_execution_def Let_def)

theorem save_activity_execution_rejects_missing_relation_witness:
  "activity_id \<lparr>activity_id = VId 77, arrangement_id = VNone, additional_properties = VNone,
             other_fields = import_fields\<rparr>
     \<noteq> VNone
   \<and> is_NotFoundByIdModel (activity_get_activity mem_env (VId 77) ''ds'' demo)
   \<and> ae_save_activity_execution mem_env
        \<lparr>activity_id = VId 77, arrangement_id = VNone, additional_properties = VNone,
             other_fields = import_fields\<rparr> ''ds'' demo
      = (VObj ActivityExecutionOut
           [(''errors'', VDict [(''errors'', VStr ''given activity does not exist'')])], demo)"
proof -
  have nf: "is_NotFoundByIdModel (activity_get_activity mem_env (VId 77) ''ds'' demo)"
    by (simp add: mem_env_def mem_get_one_def mem_get_document_def demo_def has_id_def
        not_found_def)
  have "\<forall>add. ae_save_activity_execution (mem_env\<lparr>activity_add_activity_execution := add\<rparr>)
          \<lparr>activity_id = VId 77, arrangement_id = VNone, additional_properties = VNone,
             other_fields = import_fields\<rparr> ''ds'' demo
        = (errors_out ActivityExecutionOut ''given activity does not exist'', demo)"
    using save_activity_execution_rejects_missing_relation
      [of "\<lparr>activity_id = VId 77, arrangement_id = VNone, additional_properties = VNone,
             other_fields = import_fields\<rparr>"
          mem_env "''ds''" demo] nf
    by simp
  then have "ae_save_activity_execution
          (mem_env\<lparr>activity_add_activity_execution := activity_add_activity_execution mem_env\<rparr>)
          \<lparr>activity_id = VId 77, arrangement_id = VNone, additional_properties = VNone,
             other_fields = import_fields\<rparr> ''ds'' demo
        = (errors_out ActivityExecutionOut ''given activity does not exist'', demo)"
    by (rule spec)
  then show ?thesis using nf by (simp add: errors_out_def)
qed


subsection \<open>Updates of an activity execution\<close>

text \<open>
  Claim C7 (what the code does where the claim fails).  \<open>update_activity_execution\<close>
  fetches the execution and, without testing the answer for the sentinel, assigns the
  fields of the patch to it.  For an id that names no execution the answer is the
  \<open>NotFoundByIdModel\<close> sentinel, which declares no \<open>additional_properties\<close> field:
  the assignment raises \<open>ValueError\<close>, and the sentinel is not returned.
\<close>

theorem update_activity_execution_missing_id:
  assumes "ae_get_activity_execution env activity_execution_id ds 0 None st = Inr nf"
    and "is_NotFoundByIdModel nf"
  shows "ae_update_activity_execution env activity_execution_id patch ds st = (Inl ValueError, st)"
  using assms
  by (auto simp: ae_update_activity_execution_def bindE_def is_NotFoundByIdModel_iff
      property_in_dict_def has_field_def)

theorem update_activity_execution_missing_id_witness:
  "is_NotFoundByIdModel
     (not_found (VId 66) (VDict [(''errors'', VStr ''activity execution not found'')]))
   \<and> ae_get_activity_execution mem_env (VId 66) ''ds'' 0 None demo
       = Inr (not_found (VId 66) (VDict [(''errors'', VStr ''activity execution not found'')]))
   \<and> ae_update_activity_execution mem_env (VId 66)
        (ActivityExecutionPropertyIn.make (VStr ''x'') import_fields) ''ds'' demo = (Inl ValueError, demo)"
proof -
  have nf: "is_NotFoundByIdModel
     (not_found (VId 66) (VDict [(''errors'', VStr ''activity execution not found'')]))"
    by (simp add: not_found_def)
  show ?thesis
    using update_activity_execution_missing_id [OF demo_execution_66 nf] demo_execution_66 nf
    by simp
qed

text \<open>
  Claim C8.  \<open>update_activity_execution_relationships\<close> on an existing execution:
  when the new activity id resolves to no activity the result is an error output,
  whether or not the id is \<open>None\<close>; when the activity resolves, a new arrangement id
  that resolves to no arrangement gives an error output only if it is not \<open>None\<close>; and
  when both validations pass, the fetched execution with the two relation fields
  replaced is handed to the activity service's update of the embedded execution.  The
  error outputs leave the storage state as it was.
\<close>

theorem update_activity_execution_relationships_validation:
  assumes "ae_get_activity_execution env activity_execution_id ds 0 None st = Inr existing"
    and "\<not> is_NotFoundByIdModel existing"
  shows "(is_NotFoundByIdModel (activity_get_activity env (activity_id patch) ds st) \<longrightarrow>
           ae_update_activity_execution_relationships env activity_execution_id patch ds st
             = (Inr (errors_out ActivityExecutionOut ''given activity does not exist''), st))
    \<and> (\<not> is_NotFoundByIdModel (activity_get_activity env (activity_id patch) ds st)
         \<and> arrangement_id patch \<noteq> VNone
         \<and> is_NotFoundByIdModel (arrangement_get_arrangement env (arrangement_id patch) ds st) \<longrightarrow>
           ae_update_activity_execution_relationships env activity_execution_id patch ds st
             = (Inr (errors_out ActivityExecutionOut ''given arrangement does not exist''), st))
    \<and> (\<not> is_NotFoundByIdModel (activity_get_activity env (activity_id patch) ds st)
         \<and> (arrangement_id patch = VNone
             \<or> \<not> is_NotFoundByIdModel (arrangement_get_arrangement env (arrangement_id patch) ds st))
         \<longrightarrow>
           (\<exists>fs. existing = VObj ActivityExecutionOut fs
              \<and> ae_update_activity_execution_relationships env activity_execution_id patch ds st
                  = (case activity_update_activity_execution env activity_execution_id
                            (upd ''arrangement_id'' (arrangement_id patch)
                               (upd ''activity_id'' (activity_id patch) fs)) ds st
                     of (r, st') \<Rightarrow> (Inr r, st'))))"
proof -
  from ae_get_activity_execution_result [OF assms(1)] assms(2)
  obtain fs where ex: "existing = VObj ActivityExecutionOut fs"
    by auto
  have missing_activity:
    "is_NotFoundByIdModel (activity_get_activity env (activity_id patch) ds st) \<longrightarrow>
       ae_update_activity_execution_relationships env activity_execution_id patch ds st
         = (Inr (errors_out ActivityExecutionOut ''given activity does not exist''), st)"
    using assms by (simp add: ae_update_activity_execution_relationships_def)
  have missing_arrangement:
    "\<not> is_NotFoundByIdModel (activity_get_activity env (activity_id patch) ds st)
       \<and> arrangement_id patch \<noteq> VNone
       \<and> is_NotFoundByIdModel (arrangement_get_arrangement env (arrangement_id patch) ds st) \<longrightarrow>
         ae_update_activity_execution_relationships env activity_execution_id patch ds st
           = (Inr (errors_out ActivityExecutionOut ''given arrangement does not exist''), st)"
    using assms by (simp add: ae_update_activity_execution_relationships_def)
  have persisted:
    "\<not> is_NotFoundByIdModel (activity_get_activity env (activity_id patch) ds st)
       \<and> (arrangement_id patch = VNone
           \<or> \<not> is_NotFoundByIdModel (arrangement_get_arrangement env (arrangement_id patch) ds st))
       \<longrightarrow>
         (\<exists>fs. existing = VObj ActivityExecutionOut fs
            \<and> ae_update_activity_execution_relationships env activity_execution_id patch ds st
                = (case activity_update_activity_execution env activity_execution_id
                          (upd ''arrangement_id'' (arrangement_id patch)
                             (upd ''activity_id'' (activity_id patch) fs)) ds st
                   of (r, st') \<Rightarrow> (Inr r, st')))"
    using assms(1) ex
    by (auto simp: ae_update_activity_execution_relationships_def relation_in_dict_def
        bindE_def has_field_def)
  from missing_activity missing_arrangement persisted show ?thesis
    by blast
qed

theorem update_activity_execution_relationships_validation_witness:
  "ae_update_activity_execution_relationships mem_env (VId 12)
      \<lparr>activity_id = VNone, arrangement_id = VNone\<rparr> ''ds'' demo
     = (Inr (errors_out ActivityExecutionOut ''given activity does not exist''), demo)
   \<and> ae_update_activity_execution_relationships mem_env (VId 12)
      \<lparr>activity_id = VId 2, arrangement_id = VId 88\<rparr> ''ds'' demo
     = (Inr (errors_out ActivityExecutionOut ''given arrangement does not exist''), demo)
   \<and> fst (ae_update_activity_execution_relationships mem_env (VId 12)
      \<lparr>activity_id = VId 2, arrangement_id = VNone\<rparr> ''ds'' demo)
     = Inr (VObj ActivityExecutionOut
              [(''id'', VId 12), (''activity_id'', VId 2), (''arrangement_id'', VNone),
               (''additional_properties'', VNone)])
   \<and> embedded_executions (mem_get_document (VId 2) ACTIVITY ''ds''
        (snd (ae_update_activity_execution_relationships mem_env (VId 12)
               \<lparr>activity_id = VId 2, arrangement_id = VNone\<rparr> ''ds'' demo)))
     = [demo_execution 11,
        VDict [(''id'', VId 12), (''activity_id'', VId 2), (''arrangement_id'', VNone),
               (''additional_properties'', VNone)],
        demo_execution 13]"
proof -
  have existing: "\<not> is_NotFoundByIdModel (VObj ActivityExecutionOut
      [(''id'', VId 12), (''activity_id'', VId 2), (''arrangement_id'', VId 3),
       (''additional_properties'', VNone)])"
    by simp
  note t = update_activity_execution_relationships_validation [OF demo_execution_12 existing]
  have a: "ae_update_activity_execution_relationships mem_env (VId 12)
      \<lparr>activity_id = VNone, arrangement_id = VNone\<rparr> ''ds'' demo
     = (Inr (errors_out ActivityExecutionOut ''given activity does not exist''), demo)"
    using t [of "\<lparr>activity_id = VNone, arrangement_id = VNone\<rparr>"]
    by (simp add: mem_simps)
  have b: "ae_update_activity_execution_relationships mem_env (VId 12)
      \<lparr>activity_id = VId 2, arrangement_id = VId 88\<rparr> ''ds'' demo
     = (Inr (errors_out ActivityExecutionOut ''given arrangement does not exist''), demo)"
    using t [of "\<lparr>activity_id = VId 2, arrangement_id = VId 88\<rparr>"]
    by (simp add: mem_simps)
  have c: "ae_update_activity_execution_relationships mem_env (VId 12)
      \<lparr>activity_id = VId 2, arrangement_id = VNone\<rparr> ''ds'' demo
     = (case activity_update_activity_execution mem_env (VId 12)
               (upd ''arrangement_id'' VNone (upd ''activity_id'' (VId 2)
                  [(''id'', VId 12), (''activity_id'', VId 2), (''arrangement_id'', VId 3),
                   (''additional_properties'', VNone)])) ''ds'' demo
        of (r, st') \<Rightarrow> (Inr r, st'))"
    using t [of "\<lparr>activity_id = VId 2, arrangement_id = VNone\<rparr>"]
    by (simp add: mem_simps)
  show ?thesis
    unfolding a b c by (simp add: mem_simps)
qed



subsection \<open>Expansion never follows the relation it arrived through\<close>

lemma map_of_upd: "map_of (upd k v d) k' = (if k' = k then Some v else map_of d k')"
  by (induction d) auto

lemma subscript_setitem:
  "setitem r k v = Inr r' \<Longrightarrow> subscript r' k' = (if k' = k then Inr v else subscript r k')"
  by (cases r) (auto simp: map_of_upd)

lemma bindE_eq_Inr: "bindE m f = Inr b \<longleftrightarrow> (\<exists>a. m = Inr a \<and> f a = Inr b)"
  by (cases m) (simp_all add: bindE_def)

lemma ae_add_related_arrangement_keeps:
  assumes "ae_add_related_arrangement env r ds depth source st = Inr r'"
  shows "k \<noteq> ''arrangement'' \<or> source = Some ARRANGEMENT \<Longrightarrow> subscript r' k = subscript r k"
  using assms
  by (auto simp: ae_add_related_arrangement_def bindE_eq_Inr Let_def subscript_setitem
      split: if_splits)

lemma ae_add_related_participations_keeps:
  assumes "ae_add_related_participations env r ds depth source st = Inr r'"
  shows "k \<noteq> ''participations'' \<or> source = Some PARTICIPATION \<Longrightarrow> subscript r' k = subscript r k"
  using assms
  by (auto simp: ae_add_related_participations_def bindE_eq_Inr subscript_setitem
      split: if_splits)

lemma ae_add_related_experiments_keeps:
  assumes "ae_add_related_experiments env r ds depth source st = Inr r'"
  shows "k \<noteq> ''experiments'' \<or> source = Some EXPERIMENT \<Longrightarrow> subscript r' k = subscript r k"
  using assms
  by (auto simp: ae_add_related_experiments.simps bindE_eq_Inr subscript_setitem
      split: if_splits)

lemma ae_add_activity_keeps:
  assumes "ae_add_activity r ds depth source activity = Inr r'"
  shows "k \<noteq> ''activity'' \<or> source = Some ACTIVITY \<Longrightarrow> subscript r' k = subscript r k"
  using assms
  by (auto simp: ae_add_activity_def subscript_setitem split: if_splits)

lemma ae_add_related_documents_keeps:
  assumes "ae_add_related_documents env r ds depth source activity st = Inr r'"
    and "(k = ''arrangement'' \<and> source = Some ARRANGEMENT)
       \<or> (k = ''experiments'' \<and> source = Some EXPERIMENT)
       \<or> (k = ''participations'' \<and> source = Some PARTICIPATION)
       \<or> (k = ''activity'' \<and> source = Some ACTIVITY)"
  shows "subscript r' k = subscript r k"
proof (cases "depth > 0")
  case False
  with assms(1) show ?thesis by (simp add: ae_add_related_documents.simps)
next
  case True
  with assms(1) obtain r1 r2 r3 where
    s1: "ae_add_related_arrangement env r ds depth source st = Inr r1" and
    s2: "ae_add_related_experiments env r1 ds depth source st = Inr r2" and
    s3: "ae_add_related_participations env r2 ds depth source st = Inr r3" and
    s4: "ae_add_activity r3 ds depth source activity = Inr r'"
    by (auto simp: ae_add_related_documents.simps bindE_eq_Inr)
  have "subscript r1 k = subscript r k"
    using assms(2) by (intro ae_add_related_arrangement_keeps [OF s1]) auto
  moreover have "subscript r2 k = subscript r1 k"
    using assms(2) by (intro ae_add_related_experiments_keeps [OF s2]) auto
  moreover have "subscript r3 k = subscript r2 k"
    using assms(2) by (intro ae_add_related_participations_keeps [OF s3]) auto
  moreover have "subscript r' k = subscript r3 k"
    using assms(2) by (intro ae_add_activity_keeps [OF s4]) auto
  ultimately show ?thesis by simp
qed

lemma measure_add_related_time_series_keeps:
  assumes "measure_add_related_time_series env r ds depth source st = Inr r'"
  shows "k \<noteq> ''time_series'' \<or> source = Some TIME_SERIES \<Longrightarrow> subscript r' k = subscript r k"
  using assms
  by (auto simp: measure_add_related_time_series_def bindE_eq_Inr subscript_setitem
      split: if_splits)

lemma measure_add_related_measure_name_keeps:
  assumes "measure_add_related_measure_name env r ds depth source st = Inr r'"
  shows "k \<noteq> ''measure_name'' \<or> source = Some MEASURE_NAME \<Longrightarrow> subscript r' k = subscript r k"
  using assms
  by (auto simp: measure_add_related_measure_name_def bindE_eq_Inr Let_def subscript_setitem
      split: if_splits)

lemma measure_add_related_documents_keeps:
  assumes "measure_add_related_documents env r ds depth source st = Inr r'"
    and "(k = ''time_series'' \<and> source = Some TIME_SERIES)
       \<or> (k = ''measure_name'' \<and> source = Some MEASURE_NAME)"
  shows "subscript r' k = subscript r k"
proof (cases "depth > 0")
  case False
  with assms(1) show ?thesis by (simp add: measure_add_related_documents_def)
next
  case True
  with assms(1) obtain r1 where
    s1: "measure_add_related_time_series env r ds depth source st = Inr r1" and
    s2: "measure_add_related_measure_name env r1 ds depth source st = Inr r'"
    by (auto simp: measure_add_related_documents_def bindE_eq_Inr)
  have "subscript r1 k = subscript r k"
    using assms(2) by (intro measure_add_related_time_series_keeps [OF s1]) auto
  moreover have "subscript r' k = subscript r1 k"
    using assms(2) by (intro measure_add_related_measure_name_keeps [OF s2]) auto
  ultimately show ?thesis by simp
qed

text \<open>
  Claim C2.  At every depth, and so at every depth greater than 0, the expansion of an
  entity does not follow the relation named by the incoming source tag.  For an activity
  execution: with source \<open>ACTIVITY\<close> a successful expansion leaves the \<open>activity\<close> field
  as it found it, with source \<open>ARRANGEMENT\<close> the \<open>arrangement\<close> field, with source
  \<open>PARTICIPATION\<close> the \<open>participations\<close> field, with source \<open>EXPERIMENT\<close> the
  \<open>experiments\<close> field.  For a measure: with source \<open>TIME_SERIES\<close> the \<open>time_series\<close>
  field, with source \<open>MEASURE_NAME\<close> the \<open>measure_name\<close> field.  The step of the matching
  relation returns the record it was given, whatever the collaborator services are: it
  fetches nothing (the arrangement and measure-name steps first read the foreign key of
  the record, which raises when the record has none).
\<close>

theorem expansion_skips_source_relation:
  "(ae_add_related_documents env r ds depth (Some ACTIVITY) activity st = Inr r'
      \<longrightarrow> subscript r' ''activity'' = subscript r ''activity'')
   \<and> (ae_add_related_documents env r ds depth (Some ARRANGEMENT) activity st = Inr r'
      \<longrightarrow> subscript r' ''arrangement'' = subscript r ''arrangement'')
   \<and> (ae_add_related_documents env r ds depth (Some PARTICIPATION) activity st = Inr r'
      \<longrightarrow> subscript r' ''participations'' = subscript r ''participations'')
   \<and> (ae_add_related_documents env r ds depth (Some EXPERIMENT) activity st = Inr r'
      \<longrightarrow> subscript r' ''experiments'' = subscript r ''experiments'')
   \<and> (measure_add_related_documents env r ds depth (Some TIME_SERIES) st = Inr r'
      \<longrightarrow> subscript r' ''time_series'' = subscript r ''time_series'')
   \<and> (measure_add_related_documents env r ds depth (Some MEASURE_NAME) st = Inr r'
      \<longrightarrow> subscript r' ''measure_name'' = subscript r ''measure_name'')
   \<and> ae_add_activity r ds depth (Some ACTIVITY) activity = Inr r
   \<and> ae_add_related_arrangement env r ds depth (Some ARRANGEMENT) st
       = bindE (subscript r ''arrangement_id'') (\<lambda>arrangement_id. Inr r)
   \<and> ae_add_related_participations env r ds depth (Some PARTICIPATION) st = Inr r
   \<and> ae_add_related_experiments env r ds depth (Some EXPERIMENT) st = Inr r
   \<and> measure_add_related_time_series env r ds depth (Some TIME_SERIES) st = Inr r
   \<and> measure_add_related_measure_name env r ds depth (Some MEASURE_NAME) st
       = bindE (subscript r ''measure_name_id'') (\<lambda>measure_name_id. Inr r)"
proof -
  have steps: "ae_add_activity r ds depth (Some ACTIVITY) activity = Inr r
   \<and> ae_add_related_arrangement env r ds depth (Some ARRANGEMENT) st
       = bindE (subscript r ''arrangement_id'') (\<lambda>arrangement_id. Inr r)
   \<and> ae_add_related_participations env r ds depth (Some PARTICIPATION) st = Inr r
   \<and> ae_add_related_experiments env r ds depth (Some EXPERIMENT) st = Inr r
   \<and> measure_add_related_time_series env r ds depth (Some TIME_SERIES) st = Inr r
   \<and> measure_add_related_measure_name env r ds depth (Some MEASURE_NAME) st
       = bindE (subscript r ''measure_name_id'') (\<lambda>measure_name_id. Inr r)"
    by (simp add: ae_add_activity_def ae_add_related_arrangement_def
        ae_add_related_participations_def ae_add_related_experiments.simps
        measure_add_related_time_series_def measure_add_related_measure_name_def)
  have a: "ae_add_related_documents env r ds depth source activity st = Inr r' \<Longrightarrow>
      (k = ''arrangement'' \<and> source = Some ARRANGEMENT)
       \<or> (k = ''experiments'' \<and> source = Some EXPERIMENT)
       \<or> (k = ''participations'' \<and> source = Some PARTICIPATION)
       \<or> (k = ''activity'' \<and> source = Some ACTIVITY) \<Longrightarrow> subscript r' k = subscript r k"
    for k source
    by (rule ae_add_related_documents_keeps)
  have m: "measure_add_related_documents env r ds depth source st = Inr r' \<Longrightarrow>
      (k = ''time_series'' \<and> source = Some TIME_SERIES)
       \<or> (k = ''measure_name'' \<and> source = Some MEASURE_NAME) \<Longrightarrow> subscript r' k = subscript r k"
    for k source
    by (rule measure_add_related_documents_keeps)
  show ?thesis
    using steps a [of "Some ACTIVITY" "''activity''"] a [of "Some ARRANGEMENT" "''arrangement''"]
      a [of "Some PARTICIPATION" "''participations''"] a [of "Some EXPERIMENT" "''experiments''"]
      m [of "Some TIME_SERIES" "''time_series''"] m [of "Some MEASURE_NAME" "''measure_name''"]
    by simp
qed


theorem expansion_skips_source_relation_witness:
  "ae_add_related_documents mem_env (demo_execution 12) ''ds'' 1 (Some ACTIVITY) (VDict
     [(''id'', VId 2)]) demo_unassigned = Inr (VDict [(''id'', VId 12), (''activity_id'',
     VId 2), (''arrangement_id'', VId 3), (''additional_properties'', VNone),
     (''arrangement'', VDict [(''id'', VId 3)]), (''participations'', VList [])])
   \<and> subscript (VDict [(''id'', VId 12), (''activity_id'', VId 2), (''arrangement_id'', VId
     3), (''additional_properties'', VNone), (''arrangement'', VDict [(''id'', VId 3)]),
     (''participations'', VList [])]) ''activity'' = subscript (demo_execution 12)
     ''activity''
   \<and> ae_add_related_documents mem_env (demo_execution 12) ''ds'' 1 (Some ARRANGEMENT) (VDict
     [(''id'', VId 2)]) demo_unassigned = Inr (VDict [(''id'', VId 12), (''activity_id'',
     VId 2), (''arrangement_id'', VId 3), (''additional_properties'', VNone),
     (''participations'', VList []), (''activity'', VDict [(''id'', VId 2)])])
   \<and> subscript (VDict [(''id'', VId 12), (''activity_id'', VId 2), (''arrangement_id'', VId
     3), (''additional_properties'', VNone), (''participations'', VList []), (''activity'',
     VDict [(''id'', VId 2)])]) ''arrangement'' = subscript (demo_execution 12)
     ''arrangement''
   \<and> ae_add_related_documents mem_env (demo_execution 12) ''ds'' 1 (Some PARTICIPATION)
     (VDict [(''id'', VId 2)]) demo_unassigned = Inr (VDict [(''id'', VId 12),
     (''activity_id'', VId 2), (''arrangement_id'', VId 3), (''additional_properties'',
     VNone), (''arrangement'', VDict [(''id'', VId 3)]), (''activity'', VDict [(''id'', VId
     2)])])
   \<and> subscript (VDict [(''id'', VId 12), (''activity_id'', VId 2), (''arrangement_id'', VId
     3), (''additional_properties'', VNone), (''arrangement'', VDict [(''id'', VId 3)]),
     (''activity'', VDict [(''id'', VId 2)])]) ''participations'' = subscript
     (demo_execution 12) ''participations''
   \<and> ae_add_related_documents mem_env (demo_execution 12) ''ds'' 1 (Some EXPERIMENT) (VDict
     [(''id'', VId 2)]) demo_unassigned = Inr (VDict [(''id'', VId 12), (''activity_id'',
     VId 2), (''arrangement_id'', VId 3), (''additional_properties'', VNone),
     (''arrangement'', VDict [(''id'', VId 3)]), (''participations'', VList []),
     (''activity'', VDict [(''id'', VId 2)])])
   \<and> subscript (VDict [(''id'', VId 12), (''activity_id'', VId 2), (''arrangement_id'', VId
     3), (''additional_properties'', VNone), (''arrangement'', VDict [(''id'', VId 3)]),
     (''participations'', VList []), (''activity'', VDict [(''id'', VId 2)])])
     ''experiments'' = subscript (demo_execution 12) ''experiments''
   \<and> measure_add_related_documents mem_env (VDict [(''id'', VId 7), (''measure_name_id'',
     VId 8)]) ''ds'' 1 (Some TIME_SERIES) demo = Inr (VDict [(''id'', VId 7),
     (''measure_name_id'', VId 8), (''measure_name'', VDict [(''id'', VId 8), (''name'',
     VStr ''n'')])])
   \<and> subscript (VDict [(''id'', VId 7), (''measure_name_id'', VId 8), (''measure_name'',
     VDict [(''id'', VId 8), (''name'', VStr ''n'')])]) ''time_series'' = subscript (VDict
     [(''id'', VId 7), (''measure_name_id'', VId 8)]) ''time_series''
   \<and> measure_add_related_documents mem_env (VDict [(''id'', VId 7), (''measure_name_id'',
     VId 8)]) ''ds'' 1 (Some MEASURE_NAME) demo = Inr (VDict [(''id'', VId 7),
     (''measure_name_id'', VId 8), (''time_series'', VList [VDict [(''id'', VId 9),
     (''measure_id'', VId 7)]])])
   \<and> subscript (VDict [(''id'', VId 7), (''measure_name_id'', VId 8), (''time_series'',
     VList [VDict [(''id'', VId 9), (''measure_id'', VId 7)]])]) ''measure_name'' =
     subscript (VDict [(''id'', VId 7), (''measure_name_id'', VId 8)]) ''measure_name''"
proof -
  have run_activity: "ae_add_related_documents mem_env (demo_execution 12) ''ds'' 1 (Some
      ACTIVITY) (VDict [(''id'', VId 2)]) demo_unassigned = Inr (VDict [(''id'', VId 12),
      (''activity_id'', VId 2), (''arrangement_id'', VId 3), (''additional_properties'', VNone),
      (''arrangement'', VDict [(''id'', VId 3)]), (''participations'', VList [])])"
    by (simp add: read_simps mem_simps)
  have keep_activity: "subscript (VDict [(''id'', VId 12), (''activity_id'', VId 2),
      (''arrangement_id'', VId 3), (''additional_properties'', VNone), (''arrangement'', VDict
      [(''id'', VId 3)]), (''participations'', VList [])]) ''activity'' = subscript
      (demo_execution 12) ''activity''"
    using expansion_skips_source_relation
      [of mem_env "demo_execution 12" "''ds''" 1 "VDict [(''id'', VId 2)]" demo_unassigned
      "VDict [(''id'', VId 12), (''activity_id'', VId 2), (''arrangement_id'', VId 3),
      (''additional_properties'', VNone), (''arrangement'', VDict [(''id'', VId 3)]),
      (''participations'', VList [])]"] run_activity
    by simp
  have run_arrangement: "ae_add_related_documents mem_env (demo_execution 12) ''ds'' 1 (Some
      ARRANGEMENT) (VDict [(''id'', VId 2)]) demo_unassigned = Inr (VDict [(''id'', VId 12),
      (''activity_id'', VId 2), (''arrangement_id'', VId 3), (''additional_properties'', VNone),
      (''participations'', VList []), (''activity'', VDict [(''id'', VId 2)])])"
    by (simp add: read_simps mem_simps)
  have keep_arrangement: "subscript (VDict [(''id'', VId 12), (''activity_id'', VId 2),
      (''arrangement_id'', VId 3), (''additional_properties'', VNone), (''participations'', VList
      []), (''activity'', VDict [(''id'', VId 2)])]) ''arrangement'' = subscript (demo_execution
      12) ''arrangement''"
    using expansion_skips_source_relation
      [of mem_env "demo_execution 12" "''ds''" 1 "VDict [(''id'', VId 2)]" demo_unassigned
      "VDict [(''id'', VId 12), (''activity_id'', VId 2), (''arrangement_id'', VId 3),
      (''additional_properties'', VNone), (''participations'', VList []), (''activity'', VDict
      [(''id'', VId 2)])]"] run_arrangement
    by simp
  have run_participation: "ae_add_related_documents mem_env (demo_execution 12) ''ds'' 1
      (Some PARTICIPATION) (VDict [(''id'', VId 2)]) demo_unassigned = Inr (VDict [(''id'', VId
      12), (''activity_id'', VId 2), (''arrangement_id'', VId 3), (''additional_properties'',
      VNone), (''arrangement'', VDict [(''id'', VId 3)]), (''activity'', VDict [(''id'', VId
      2)])])"
    by (simp add: read_simps mem_simps)
  have keep_participation: "subscript (VDict [(''id'', VId 12), (''activity_id'', VId 2),
      (''arrangement_id'', VId 3), (''additional_properties'', VNone), (''arrangement'', VDict
      [(''id'', VId 3)]), (''activity'', VDict [(''id'', VId 2)])]) ''participations'' = subscript
      (demo_execution 12) ''participations''"
    using expansion_skips_source_relation
      [of mem_env "demo_execution 12" "''ds''" 1 "VDict [(''id'', VId 2)]" demo_unassigned
      "VDict [(''id'', VId 12), (''activity_id'', VId 2), (''arrangement_id'', VId 3),
      (''additional_properties'', VNone), (''arrangement'', VDict [(''id'', VId 3)]),
      (''activity'', VDict [(''id'', VId 2)])]"] run_participation
    by simp
  have run_experiment: "ae_add_related_documents mem_env (demo_execution 12) ''ds'' 1 (Some
      EXPERIMENT) (VDict [(''id'', VId 2)]) demo_unassigned = Inr (VDict [(''id'', VId 12),
      (''activity_id'', VId 2), (''arrangement_id'', VId 3), (''additional_properties'', VNone),
      (''arrangement'', VDict [(''id'', VId 3)]), (''participations'', VList []), (''activity'',
      VDict [(''id'', VId 2)])])"
    by (simp add: read_simps mem_simps)
  have keep_experiment: "subscript (VDict [(''id'', VId 12), (''activity_id'', VId 2),
      (''arrangement_id'', VId 3), (''additional_properties'', VNone), (''arrangement'', VDict
      [(''id'', VId 3)]), (''participations'', VList []), (''activity'', VDict [(''id'', VId
      2)])]) ''experiments'' = subscript (demo_execution 12) ''experiments''"
    using expansion_skips_source_relation
      [of mem_env "demo_execution 12" "''ds''" 1 "VDict [(''id'', VId 2)]" demo_unassigned
      "VDict [(''id'', VId 12), (''activity_id'', VId 2), (''arrangement_id'', VId 3),
      (''additional_properties'', VNone), (''arrangement'', VDict [(''id'', VId 3)]),
      (''participations'', VList []), (''activity'', VDict [(''id'', VId 2)])]"] run_experiment
    by simp
  have run_time_series: "measure_add_related_documents mem_env (VDict [(''id'', VId 7),
      (''measure_name_id'', VId 8)]) ''ds'' 1 (Some TIME_SERIES) demo = Inr (VDict [(''id'', VId
      7), (''measure_name_id'', VId 8), (''measure_name'', VDict [(''id'', VId 8), (''name'', VStr
      ''n'')])])"
    by (simp add: measure_add_related_documents_def measure_add_related_time_series_def
        measure_add_related_measure_name_def bindE_def mem_simps)
  have keep_time_series: "subscript (VDict [(''id'', VId 7), (''measure_name_id'', VId 8),
      (''measure_name'', VDict [(''id'', VId 8), (''name'', VStr ''n'')])]) ''time_series'' =
      subscript (VDict [(''id'', VId 7), (''measure_name_id'', VId 8)]) ''time_series''"
    using expansion_skips_source_relation
      [of mem_env "VDict [(''id'', VId 7), (''measure_name_id'', VId 8)]" "''ds''" 1 "VDict
      [(''id'', VId 2)]" demo "VDict [(''id'', VId 7), (''measure_name_id'', VId 8),
      (''measure_name'', VDict [(''id'', VId 8), (''name'', VStr ''n'')])]"] run_time_series
    by simp
  have run_measure_name: "measure_add_related_documents mem_env (VDict [(''id'', VId 7),
      (''measure_name_id'', VId 8)]) ''ds'' 1 (Some MEASURE_NAME) demo = Inr (VDict [(''id'', VId
      7), (''measure_name_id'', VId 8), (''time_series'', VList [VDict [(''id'', VId 9),
      (''measure_id'', VId 7)]])])"
    by (simp add: measure_add_related_documents_def measure_add_related_time_series_def
        measure_add_related_measure_name_def bindE_def mem_simps)
  have keep_measure_name: "subscript (VDict [(''id'', VId 7), (''measure_name_id'', VId 8),
      (''time_series'', VList [VDict [(''id'', VId 9), (''measure_id'', VId 7)]])])
      ''measure_name'' = subscript (VDict [(''id'', VId 7), (''measure_name_id'', VId 8)])
      ''measure_name''"
    using expansion_skips_source_relation
      [of mem_env "VDict [(''id'', VId 7), (''measure_name_id'', VId 8)]" "''ds''" 1 "VDict
      [(''id'', VId 2)]" demo "VDict [(''id'', VId 7), (''measure_name_id'', VId 8),
      (''time_series'', VList [VDict [(''id'', VId 9), (''measure_id'', VId 7)]])]"]
      run_measure_name
    by simp
  show ?thesis
    using run_activity keep_activity run_arrangement keep_arrangement run_participation keep_participation
      run_experiment keep_experiment run_time_series keep_time_series run_measure_name keep_measure_name
    by simp
qed

subsection \<open>Reads at depth 0\<close>

lemma sequenceE_map_Inr:
  "sequenceE (map f xs) = Inr ys \<Longrightarrow> list_all2 (\<lambda>x y. f x = Inr y) xs ys"
  by (induction xs arbitrary: ys) (auto split: sum.splits)

lemma items_Inr: "items v = Inr xs \<longleftrightarrow> v = VList xs"
  by (cases v) auto

lemma scenario_change_ids_to_objects_result:
  assumes "scenario_change_ids_to_objects env scenario ds depth st = Inr scenario'"
  shows "\<exists>ids objects e.
           subscript scenario ''activity_executions'' = Inr (VList ids)
         \<and> subscript scenario ''experiment_id'' = Inr e
         \<and> subscript scenario' ''activity_executions'' = Inr (VList objects)
         \<and> list_all2 (\<lambda>i obj. ae_get_activity_execution env i ds (max (depth - 1) 0)
                                  (Some ACTIVITY_EXECUTION) st = Inr obj) ids objects
         \<and> subscript scenario' ''experiment''
             = Inr (experiment_get_experiment env e ds (max (depth - 1) 0) (Some EXPERIMENT) st)"
proof -
  from assms obtain s1 where
    h1: "scenario_change_ae_ids_to_objects env scenario ds (max (depth - 1) 0)
           (Some ACTIVITY_EXECUTION) st = Inr s1" and
    h2: "scenario_change_experiment_id_to_object env s1 ds (max (depth - 1) 0)
           (Some EXPERIMENT) st = Inr scenario'"
    by (auto simp: scenario_change_ids_to_objects.simps Let_def bindE_eq_Inr)
  from h1 obtain ids objects where
    ids: "subscript scenario ''activity_executions'' = Inr (VList ids)" and
    objs: "sequenceE (map (\<lambda>ae_id. ae_get_activity_execution env ae_id ds (max (depth - 1) 0)
                              (Some ACTIVITY_EXECUTION) st) ids) = Inr objects" and
    s1: "setitem scenario ''activity_executions'' (VList objects) = Inr s1"
    by (auto simp: scenario_change_ae_ids_to_objects.simps bindE_eq_Inr items_Inr)
  from h2 obtain e where
    e: "subscript s1 ''experiment_id'' = Inr e" and
    s2: "setitem s1 ''experiment''
           (experiment_get_experiment env e ds (max (depth - 1) 0) (Some EXPERIMENT) st)
         = Inr scenario'"
    by (auto simp: scenario_change_experiment_id_to_object_def bindE_eq_Inr)
  have "subscript scenario ''experiment_id'' = Inr e"
    using e subscript_setitem [OF s1, of "''experiment_id''"] by simp
  moreover have "subscript scenario' ''activity_executions'' = Inr (VList objects)"
    using subscript_setitem [OF s2, of "''activity_executions''"]
      subscript_setitem [OF s1, of "''activity_executions''"] by simp
  moreover have "subscript scenario' ''experiment''
      = Inr (experiment_get_experiment env e ds (max (depth - 1) 0) (Some EXPERIMENT) st)"
    using subscript_setitem [OF s2, of "''experiment''"] by simp
  ultimately show ?thesis
    using ids sequenceE_map_Inr [OF objs] by blast
qed

text \<open>
  Claim C1, as the code has it.  For measures, activity executions and datasets the
  expansion hook \<open>_add_related_documents\<close> adds nothing whenever \<open>depth \<le> 0\<close> (the hook
  of the scenario service never adds anything), so a read at depth 0 returns the record
  as stored, its relation fields holding raw identifiers: the generic read of a measure
  returns the record the gateway delivers, and the read of an activity execution returns
  the embedded record the activity service delivers for the object identifier that
  \<open>ObjectId\<close> makes of the given one.  The
  hydration step of scenarios,
  \<open>_change_ids_to_objects\<close>, is not gated by the depth: also for \<open>depth \<le> 0\<close> a successful
  hydration has replaced the identifier sequence by one model object per identifier,
  each fetched from the activity execution service at depth 0, and has attached the
  experiment object fetched at depth 0.
\<close>

theorem depth_zero_read:
  assumes "depth \<le> 0"
  shows "measure_add_related_documents env r ds depth source st = Inr r
    \<and> ae_add_related_documents env r ds depth source activity st = Inr r
    \<and> dataset_add_related_documents r ds depth source st = Inr r
    \<and> scenario_add_related_documents r ds depth source st = Inr r
    \<and> (\<not> is_NotFoundByIdModel (mongo_get_document env ident MEASURE ds st) \<longrightarrow>
         generic_get_single_dict env (measure_add_related_documents env) MeasureOut ident ds
           depth source st = Inr (mongo_get_document env ident MEASURE ds st))
    \<and> (object_id ident = Inr oid
         \<and> activity_get_multiple env ds [(''activity_executions.id'', oid)] (depth - 1)
           (Some ACTIVITY_EXECUTION) (ae_get_activity_projection [(''id'', oid)]) st
         = VDict owner # others
         \<and> map_of owner ''activity_executions'' = Some (VList (execution # executions)) \<longrightarrow>
         ae_get_single_dict env ident ds depth source st = Inr execution)
    \<and> (scenario_change_ids_to_objects env scenario ds depth st = Inr scenario' \<longrightarrow>
         (\<exists>ids objects e.
             subscript scenario ''activity_executions'' = Inr (VList ids)
           \<and> subscript scenario ''experiment_id'' = Inr e
           \<and> subscript scenario' ''activity_executions'' = Inr (VList objects)
           \<and> list_all2 (\<lambda>i obj. ae_get_activity_execution env i ds 0
                                     (Some ACTIVITY_EXECUTION) st = Inr obj
                                  \<and> (\<exists>c fs. obj = VObj c fs)) ids objects
           \<and> subscript scenario' ''experiment''
               = Inr (experiment_get_experiment env e ds 0 (Some EXPERIMENT) st)))"
proof -
  have hooks: "measure_add_related_documents env r ds depth source st = Inr r
    \<and> ae_add_related_documents env r ds depth source activity st = Inr r
    \<and> dataset_add_related_documents r ds depth source st = Inr r
    \<and> scenario_add_related_documents r ds depth source st = Inr r"
    using assms
    by (simp add: measure_add_related_documents_def ae_add_related_documents.simps
        dataset_add_related_documents_def scenario_add_related_documents_def)
  have measure_read:
    "\<not> is_NotFoundByIdModel (mongo_get_document env ident MEASURE ds st) \<longrightarrow>
       generic_get_single_dict env (measure_add_related_documents env) MeasureOut ident ds
         depth source st = Inr (mongo_get_document env ident MEASURE ds st)"
    using assms
    by (simp add: generic_get_single_dict_def measure_add_related_documents_def)
  have execution_read:
    "object_id ident = Inr oid
       \<and> activity_get_multiple env ds [(''activity_executions.id'', oid)] (depth - 1)
         (Some ACTIVITY_EXECUTION) (ae_get_activity_projection [(''id'', oid)]) st
       = VDict owner # others
       \<and> map_of owner ''activity_executions'' = Some (VList (execution # executions)) \<longrightarrow>
       ae_get_single_dict env ident ds depth source st = Inr execution"
    using assms
    by (simp add: ae_get_single_dict.simps ae_add_related_documents.simps bindE_def)
  have hydration:
    "scenario_change_ids_to_objects env scenario ds depth st = Inr scenario' \<longrightarrow>
         (\<exists>ids objects e.
             subscript scenario ''activity_executions'' = Inr (VList ids)
           \<and> subscript scenario ''experiment_id'' = Inr e
           \<and> subscript scenario' ''activity_executions'' = Inr (VList objects)
           \<and> list_all2 (\<lambda>i obj. ae_get_activity_execution env i ds 0
                                     (Some ACTIVITY_EXECUTION) st = Inr obj
                                  \<and> (\<exists>c fs. obj = VObj c fs)) ids objects
           \<and> subscript scenario' ''experiment''
               = Inr (experiment_get_experiment env e ds 0 (Some EXPERIMENT) st))"
  proof
    assume "scenario_change_ids_to_objects env scenario ds depth st = Inr scenario'"
    from scenario_change_ids_to_objects_result [OF this] assms
    obtain ids objects e where
      a: "subscript scenario ''activity_executions'' = Inr (VList ids)"
         "subscript scenario ''experiment_id'' = Inr e"
         "subscript scenario' ''activity_executions'' = Inr (VList objects)"
         "subscript scenario' ''experiment''
               = Inr (experiment_get_experiment env e ds 0 (Some EXPERIMENT) st)" and
      b: "list_all2 (\<lambda>i obj. ae_get_activity_execution env i ds 0
                                  (Some ACTIVITY_EXECUTION) st = Inr obj) ids objects"
      by auto
    have "list_all2 (\<lambda>i obj. ae_get_activity_execution env i ds 0
                                     (Some ACTIVITY_EXECUTION) st = Inr obj
                                  \<and> (\<exists>c fs. obj = VObj c fs)) ids objects"
      using b by (rule list_all2_mono) (auto dest: ae_get_activity_execution_result)
    with a show "\<exists>ids objects e.
             subscript scenario ''activity_executions'' = Inr (VList ids)
           \<and> subscript scenario ''experiment_id'' = Inr e
           \<and> subscript scenario' ''activity_executions'' = Inr (VList objects)
           \<and> list_all2 (\<lambda>i obj. ae_get_activity_execution env i ds 0
                                     (Some ACTIVITY_EXECUTION) st = Inr obj
                                  \<and> (\<exists>c fs. obj = VObj c fs)) ids objects
           \<and> subscript scenario' ''experiment''
               = Inr (experiment_get_experiment env e ds 0 (Some EXPERIMENT) st)"
      by blast
  qed
  from hooks measure_read execution_read hydration show ?thesis
    by blast
qed


lemma demo_hydration:
  "scenario_change_ids_to_objects mem_env demo_scenario ''ds'' 0 demo
     = Inr (VDict demo_scenario_hydrated)"
  by (simp add: read_simps mem_simps demo_scenario_def demo_scenario_hydrated_def)

theorem depth_zero_read_witness:
  "(0::int) \<le> 0
   \<and> measure_add_related_documents mem_env (demo_execution 12) ''ds'' 0 None demo
       = Inr (demo_execution 12)
   \<and> ae_add_related_documents mem_env (demo_execution 12) ''ds'' 0 None (VDict [(''id'', VId 2)]) demo
       = Inr (demo_execution 12)
   \<and> generic_get_single_dict mem_env (measure_add_related_documents mem_env) MeasureOut (VId 7)
        ''ds'' 0 None demo
       = Inr (VDict [(''id'', VId 7), (''measure_name_id'', VId 8), (''datatype'', VStr ''int'')])
   \<and> ae_get_single_dict mem_env (VId 12) ''ds'' 0 None demo = Inr (demo_execution 12)
   \<and> scenario_change_ids_to_objects mem_env demo_scenario ''ds'' 0 demo
       = Inr (VDict demo_scenario_hydrated)
   \<and> (\<exists>objects. subscript (VDict demo_scenario_hydrated) ''activity_executions''
                     = Inr (VList objects)
         \<and> list_all2 (\<lambda>i obj. ae_get_activity_execution mem_env i ''ds'' 0
                                   (Some ACTIVITY_EXECUTION) demo = Inr obj
                                \<and> (\<exists>c fs. obj = VObj c fs)) [VId 11, VId 12, VId 13] objects)"
proof -
  have zero: "(0::int) \<le> 0"
    by simp
  have stored: "\<not> is_NotFoundByIdModel (mongo_get_document mem_env (VId 7) MEASURE ''ds'' demo)"
    by (simp add: mem_simps)
  have owner: "object_id (VId 12) = Inr (VId 12)
       \<and> activity_get_multiple mem_env ''ds'' [(''activity_executions.id'', VId 12)] (0 - 1)
           (Some ACTIVITY_EXECUTION) (ae_get_activity_projection [(''id'', VId 12)]) demo
         = VDict [(''id'', VId 2), (''activity_executions'', VList [demo_execution 12])] # []
       \<and> map_of [(''id'', VId 2), (''activity_executions'', VList [demo_execution 12])]
             ''activity_executions'' = Some (VList (demo_execution 12 # []))"
    by (simp add: ae_get_activity_projection_def mem_simps)
  note t = depth_zero_read [OF zero, of mem_env "demo_execution 12" "''ds''" None demo
      "VDict [(''id'', VId 2)]" _ _ _ _ _ _ demo_scenario "VDict demo_scenario_hydrated"]
  have hooks: "measure_add_related_documents mem_env (demo_execution 12) ''ds'' 0 None demo
       = Inr (demo_execution 12)
     \<and> ae_add_related_documents mem_env (demo_execution 12) ''ds'' 0 None
         (VDict [(''id'', VId 2)]) demo = Inr (demo_execution 12)"
    using t by blast
  have measure_read: "generic_get_single_dict mem_env (measure_add_related_documents mem_env)
        MeasureOut (VId 7) ''ds'' 0 None demo
       = Inr (VDict [(''id'', VId 7), (''measure_name_id'', VId 8), (''datatype'', VStr ''int'')])"
    using t [of "VId 7"] stored by (simp add: mem_simps)
  have execution_read: "ae_get_single_dict mem_env (VId 12) ''ds'' 0 None demo
       = Inr (demo_execution 12)"
    using t [of "VId 12" "VId 12" "[(''id'', VId 2), (''activity_executions'', VList [demo_execution 12])]"
        "[]" "demo_execution 12" "[]"] owner by blast
  have hydrated: "\<exists>objects. subscript (VDict demo_scenario_hydrated) ''activity_executions''
                     = Inr (VList objects)
         \<and> list_all2 (\<lambda>i obj. ae_get_activity_execution mem_env i ''ds'' 0
                                   (Some ACTIVITY_EXECUTION) demo = Inr obj
                                \<and> (\<exists>c fs. obj = VObj c fs)) [VId 11, VId 12, VId 13] objects"
  proof -
    from t [of "VId 7" VNone "[]" "[]" VNone "[]"] demo_hydration
    obtain ids objects where
      ids: "subscript demo_scenario ''activity_executions'' = Inr (VList ids)" and
      objects: "subscript (VDict demo_scenario_hydrated) ''activity_executions''
                  = Inr (VList objects)" and
      each: "list_all2 (\<lambda>i obj. ae_get_activity_execution mem_env i ''ds'' 0
                                   (Some ACTIVITY_EXECUTION) demo = Inr obj
                                \<and> (\<exists>c fs. obj = VObj c fs)) ids objects"
      by blast
    from ids have "ids = [VId 11, VId 12, VId 13]"
      by (simp add: demo_scenario_def)
    with objects each show ?thesis
      by blast
  qed
  from zero hooks measure_read execution_read demo_hydration hydrated show ?thesis
    by blast
qed


text \<open>
  Claim C1 as stated fails for scenarios.  On the demo dataset the hydration step at
  depth 0 turns the stored sequence of identifiers 11, 12, 13 into three execution
  objects and adds the experiment object.
\<close>

theorem scenario_read_at_depth_zero_is_hydrated:
  "scenario_change_ids_to_objects mem_env demo_scenario ''ds'' 0 demo
     = Inr (VDict demo_scenario_hydrated)
   \<and> subscript demo_scenario ''activity_executions'' = Inr (VList [VId 11, VId 12, VId 13])
   \<and> subscript (VDict demo_scenario_hydrated) ''activity_executions''
     = Inr (VList [VObj ActivityExecutionOut
                     [(''id'', VId 11), (''activity_id'', VId 2), (''arrangement_id'', VId 3),
                      (''additional_properties'', VNone)],
                   VObj ActivityExecutionOut
                     [(''id'', VId 12), (''activity_id'', VId 2), (''arrangement_id'', VId 3),
                      (''additional_properties'', VNone)],
                   VObj ActivityExecutionOut
                     [(''id'', VId 13), (''activity_id'', VId 2), (''arrangement_id'', VId 3),
                      (''additional_properties'', VNone)]])"
  by (simp add: read_simps mem_simps demo_scenario_def demo_scenario_hydrated_def)



subsection \<open>Insert after an element\<close>

lemma save_activity_execution_out:
  "\<exists>fs. fst (ae_save_activity_execution env ae ds st) = VObj ActivityExecutionOut fs"
  by (simp add: ae_save_activity_execution_def Let_def errors_out_def split: prod.splits)

lemma put_after_unresolved:
  assumes "is_NotFoundByIdModel (experiment_get_experiment env previous_id ds 0 None st)"
    and "ae_get_activity_execution env previous_id ds 0 None st = Inr missing"
    and "is_NotFoundByIdModel missing"
  shows "scenario_put_activity_execution_after_element env previous_id x ds st
    = (Inr (not_found previous_id
              (VStr ''No activity execution or expriment with given id found'')), st)"
  using assms
  by (simp add: scenario_put_activity_execution_after_element_def
      scenario_get_scenario_by_element_id_def bindE_def not_found_def)

text \<open>
  Claim C4 (what the code does where the claim fails).  \<open>add_activity_execution\<close> saves
  the new execution before it resolves the previous id.  When the previous id then
  resolves to neither an experiment nor an activity execution,
  \<open>_put_activity_execution_after_element\<close> answers with the sentinel and writes nothing, but
  \<open>add_activity_execution\<close> drops that answer: it returns the execution it has saved, which
  is not the sentinel, and the state it leaves is the state after the save.
\<close>

theorem add_activity_execution_drops_not_found:
  assumes "ae_save_activity_execution env activity_execution ds st = (saved, st')"
    and "is_NotFoundByIdModel (experiment_get_experiment env previous_id ds 0 None st')"
    and "ae_get_activity_execution env previous_id ds 0 None st' = Inr missing"
    and "is_NotFoundByIdModel missing"
  shows "\<exists>new_id. py_getattr saved ''id'' = Inr new_id
          \<and> scenario_put_activity_execution_after_element env previous_id new_id ds st'
              = (Inr (not_found previous_id
                        (VStr ''No activity execution or expriment with given id found'')), st')
          \<and> scenario_add_activity_execution env previous_id activity_execution ds st
              = (Inr saved, st')
          \<and> \<not> is_NotFoundByIdModel saved"
proof -
  from save_activity_execution_out [of env activity_execution ds st] assms(1)
  obtain fs where saved: "saved = VObj ActivityExecutionOut fs"
    by auto
  let ?new_id = "case map_of fs ''id'' of Some v \<Rightarrow> v | None \<Rightarrow> VNone"
  have new_id: "py_getattr saved ''id'' = Inr ?new_id"
    using saved by simp
  have answer: "scenario_put_activity_execution_after_element env previous_id ?new_id ds st'
      = (Inr (not_found previous_id
                (VStr ''No activity execution or expriment with given id found'')), st')"
    using put_after_unresolved [OF assms(2-4)] .
  have "scenario_add_activity_execution env previous_id activity_execution ds st
          = (Inr saved, st')"
    using assms(1) new_id answer by (simp add: scenario_add_activity_execution_def)
  with new_id answer saved show ?thesis
    by auto
qed

theorem add_activity_execution_drops_not_found_witness:
  "is_NotFoundByIdModel
     (experiment_get_experiment mem_env (VId 66) ''ds'' 0 None
        (snd (ae_save_activity_execution mem_env
                \<lparr>activity_id = VId 2, arrangement_id = VNone, additional_properties = VNone,
             other_fields = import_fields\<rparr> ''ds'' demo)))
   \<and> ae_get_activity_execution mem_env (VId 66) ''ds'' 0 None
        (snd (ae_save_activity_execution mem_env
                \<lparr>activity_id = VId 2, arrangement_id = VNone, additional_properties = VNone,
             other_fields = import_fields\<rparr> ''ds'' demo))
       = Inr (not_found (VId 66) (VDict [(''errors'', VStr ''activity execution not found'')]))
   \<and> fst (scenario_add_activity_execution mem_env (VId 66)
            \<lparr>activity_id = VId 2, arrangement_id = VNone, additional_properties = VNone,
             other_fields = import_fields\<rparr> ''ds'' demo)
       = Inr (VObj ActivityExecutionOut
                [(''id'', VId 100), (''activity_id'', VId 2), (''arrangement_id'', VNone),
                 (''additional_properties'', VNone),
            (''external_id'', VNone), (''import_job_id'', VNone),
            (''import_timestamp'', VNone)])
   \<and> embedded_executions
        (mem_get_document (VId 2) ACTIVITY ''ds''
           (snd (scenario_add_activity_execution mem_env (VId 66)
                   \<lparr>activity_id = VId 2, arrangement_id = VNone, additional_properties = VNone,
             other_fields = import_fields\<rparr> ''ds'' demo)))
       = [demo_execution 11, demo_execution 12, demo_execution 13,
          VDict [(''id'', VId 100), (''activity_id'', VId 2), (''arrangement_id'', VNone),
                 (''additional_properties'', VNone),
            (''external_id'', VNone), (''import_job_id'', VNone),
            (''import_timestamp'', VNone)]]
   \<and> documents (snd (scenario_add_activity_execution mem_env (VId 66)
                        \<lparr>activity_id = VId 2, arrangement_id = VNone, additional_properties = VNone,
             other_fields = import_fields\<rparr> ''ds'' demo))
        ''ds'' SCENARIO
       = [VDict [(''id'', VId 5), (''experiment_id'', VId 1),
                 (''activity_executions'', VList [VId 11, VId 12, VId 13])]]"
proof -
  let ?ae = "\<lparr>activity_id = VId 2, arrangement_id = VNone, additional_properties = VNone,
             other_fields = import_fields\<rparr>"
  let ?save = "ae_save_activity_execution mem_env ?ae ''ds'' demo"
  have saved: "?save
      = (VObj ActivityExecutionOut
           [(''id'', VId 100), (''activity_id'', VId 2), (''arrangement_id'', VNone),
            (''additional_properties'', VNone),
            (''external_id'', VNone), (''import_job_id'', VNone),
            (''import_timestamp'', VNone)], snd ?save)"
    by (simp add: ae_save_activity_execution_def activity_execution_in_dict_def Let_def
        mem_simps)
  have h2: "is_NotFoundByIdModel
              (experiment_get_experiment mem_env (VId 66) ''ds'' 0 None (snd ?save))"
    by (simp add: ae_save_activity_execution_def activity_execution_in_dict_def Let_def
        mem_simps)
  have h3: "ae_get_activity_execution mem_env (VId 66) ''ds'' 0 None (snd ?save)
      = Inr (not_found (VId 66) (VDict [(''errors'', VStr ''activity execution not found'')]))"
    by (simp add: ae_save_activity_execution_def activity_execution_in_dict_def Let_def
        read_simps mem_simps)
  have h4: "is_NotFoundByIdModel
              (not_found (VId 66) (VDict [(''errors'', VStr ''activity execution not found'')]))"
    by (simp add: not_found_def)
  from add_activity_execution_drops_not_found [OF saved h2 h3 h4]
  have result: "scenario_add_activity_execution mem_env (VId 66) ?ae ''ds'' demo
      = (Inr (VObj ActivityExecutionOut
                [(''id'', VId 100), (''activity_id'', VId 2), (''arrangement_id'', VNone),
                 (''additional_properties'', VNone),
            (''external_id'', VNone), (''import_job_id'', VNone),
            (''import_timestamp'', VNone)]), snd ?save)"
    by blast
  have stored: "embedded_executions (mem_get_document (VId 2) ACTIVITY ''ds'' (snd ?save))
      = [demo_execution 11, demo_execution 12, demo_execution 13,
         VDict [(''id'', VId 100), (''activity_id'', VId 2), (''arrangement_id'', VNone),
                (''additional_properties'', VNone),
            (''external_id'', VNone), (''import_job_id'', VNone),
            (''import_timestamp'', VNone)]]"
    by (simp add: ae_save_activity_execution_def activity_execution_in_dict_def Let_def
        mem_simps)
  have scenarios: "documents (snd ?save) ''ds'' SCENARIO
      = [VDict [(''id'', VId 5), (''experiment_id'', VId 1),
                (''activity_executions'', VList [VId 11, VId 12, VId 13])]]"
    by (simp add: ae_save_activity_execution_def activity_execution_in_dict_def Let_def
        mem_simps)
  show ?thesis
    unfolding result using h2 h3 stored scenarios by simp
qed


subsection \<open>Reorder: the remove step\<close>







subsection \<open>Saving a scenario with an invalid embedded execution\<close>

text \<open>The identifier of a saved execution, \<open>ae.id\<close>.\<close>

lemma save_activity_executions_ids:
  assumes "scenario_save_activity_executions env aes ds st = (saved, st')"
  shows "length saved = length aes
    \<and> (\<exists>ids. sequenceE (map (\<lambda>ae. py_getattr ae ''id'') saved) = Inr ids
            \<and> length ids = length aes
            \<and> (\<forall>k < length aes. py_getattr (saved ! k) ''id'' = Inr (ids ! k)))"
  using assms
proof (induction aes arbitrary: st saved st')
  case Nil
  then show ?case by simp
next
  case (Cons ae aes)
  obtain out s1 where one: "ae_save_activity_execution env ae ds st = (out, s1)"
    by (cases "ae_save_activity_execution env ae ds st")
  obtain outs s2 where rest: "scenario_save_activity_executions env aes ds s1 = (outs, s2)"
    by (cases "scenario_save_activity_executions env aes ds s1")
  from save_activity_execution_out [of env ae ds st] one
  obtain fs where out: "out = VObj ActivityExecutionOut fs"
    by auto
  from Cons.IH [OF rest] obtain ids where
    ids: "length outs = length aes"
      "sequenceE (map (\<lambda>ae. py_getattr ae ''id'') outs) = Inr ids"
      "length ids = length aes"
      "\<forall>k < length aes. py_getattr (outs ! k) ''id'' = Inr (ids ! k)"
    by auto
  from Cons.prems one rest have saved: "saved = out # outs"
    by simp
  let ?i = "case map_of fs ''id'' of Some v \<Rightarrow> v | None \<Rightarrow> VNone"
  have "sequenceE (map (\<lambda>ae. py_getattr ae ''id'') saved) = Inr (?i # ids)"
    using saved out ids(2) by simp
  moreover have "\<forall>k < length (ae # aes). py_getattr (saved ! k) ''id'' = Inr ((?i # ids) ! k)"
    using saved out ids(4) by (auto simp: nth_Cons split: nat.splits)
  ultimately show ?case
    using saved ids(1,3) by auto
qed

lemma save_activity_executions_append:
  assumes "scenario_save_activity_executions env pre ds st = (saved_pre, st')"
    and "scenario_save_activity_executions env post ds st' = (saved_post, st'')"
  shows "scenario_save_activity_executions env (pre @ post) ds st
           = (saved_pre @ saved_post, st'')"
  using assms
  by (induction pre arbitrary: st saved_pre st') (auto split: prod.splits)


text \<open>
  Claim C10.  \<open>save_scenario\<close> does not validate its embedded executions.  When the
  experiment check passes and one embedded execution fails the validation of
  \<open>save_activity_execution\<close> (its activity id, or its arrangement id, is not \<open>None\<close> and does
  not resolve in the state the executions before it left), \<open>save_activity_execution\<close> answers
  for it with an error output whose \<open>id\<close> is \<open>None\<close>, and \<open>save_scenario\<close> nevertheless
  creates the scenario document: the storage state it leaves is the one the gateway's
  create leaves for a record whose sequence has one identifier per embedded execution,
  with \<open>None\<close> at the position of the rejected one.
\<close>

theorem save_scenario_stores_null_id:
  assumes "scenario_experiment_id scenario = VNone
           \<or> \<not> is_NotFoundByIdModel
                 (experiment_get_experiment env (scenario_experiment_id scenario) ds 0 None st)"
    and "scenario_activity_executions scenario = pre @ ae # post"
    and "scenario_save_activity_executions env pre ds st = (saved_pre, st')"
    and "(activity_id ae \<noteq> VNone
            \<and> is_NotFoundByIdModel (activity_get_activity env (activity_id ae) ds st'))
         \<or> (arrangement_id ae \<noteq> VNone
            \<and> is_NotFoundByIdModel (arrangement_get_arrangement env (arrangement_id ae) ds st'))"
    and "scenario_save_activity_executions env post ds st' = (saved_post, st'')"
  shows "\<exists>msg ids.
           ae_save_activity_execution env ae ds st' = (errors_out ActivityExecutionOut msg, st')
         \<and> py_getattr (errors_out ActivityExecutionOut msg) ''id'' = Inr VNone
         \<and> length ids = length (pre @ ae # post)
         \<and> ids ! length pre = VNone
         \<and> snd (scenario_save_scenario env scenario ds st)
             = snd (mongo_create_document_from_dict env
                      (VDict (upd ''activity_executions'' (VList ids)
                                (scenario_in_dict scenario)))
                      SCENARIO ds st'')"
proof -
  have "\<exists>msg. ae_save_activity_execution env ae ds st'
                = (errors_out ActivityExecutionOut msg, st')"
    using assms(4) by (auto simp: ae_save_activity_execution_def Let_def)
  then obtain msg where
    rejected: "ae_save_activity_execution env ae ds st' = (errors_out ActivityExecutionOut msg, st')"
    by blast
  let ?err = "errors_out ActivityExecutionOut msg"
  have no_id: "py_getattr ?err ''id'' = Inr VNone"
    by (simp add: errors_out_def)
  have "scenario_save_activity_executions env (ae # post) ds st' = (?err # saved_post, st'')"
    using rejected assms(5) by simp
  from save_activity_executions_append [OF assms(3) this]
  have all: "scenario_save_activity_executions env (pre @ ae # post) ds st
               = (saved_pre @ ?err # saved_post, st'')" .
  from save_activity_executions_ids [OF assms(3)]
  have len: "length saved_pre = length pre"
    by simp
  from save_activity_executions_ids [OF all] obtain ids where
    ids: "sequenceE (map (\<lambda>ae. py_getattr ae ''id'') (saved_pre @ ?err # saved_post)) = Inr ids"
      "length ids = length (pre @ ae # post)"
      "\<forall>k < length (pre @ ae # post).
          py_getattr ((saved_pre @ ?err # saved_post) ! k) ''id'' = Inr (ids ! k)"
    by blast
  from ids(3) have "py_getattr ((saved_pre @ ?err # saved_post) ! length pre) ''id''
                      = Inr (ids ! length pre)"
    by simp
  with len no_id have null: "ids ! length pre = VNone"
    by (simp add: nth_append)
  have "snd (scenario_save_scenario env scenario ds st)
          = snd (mongo_create_document_from_dict env
                   (VDict (upd ''activity_executions'' (VList ids)
                             (scenario_in_dict scenario)))
                   SCENARIO ds st'')"
    using assms(1,2) all ids(1)
    by (auto simp: scenario_save_scenario_def Let_def split: prod.splits)
  with rejected no_id ids(2) null show ?thesis
    by blast
qed

theorem save_scenario_stores_null_id_witness:
  "\<not> is_NotFoundByIdModel (experiment_get_experiment mem_env (VId 1) ''ds'' 0 None demo)
   \<and> is_NotFoundByIdModel
        (activity_get_activity mem_env (VId 77) ''ds''
           (snd (scenario_save_activity_executions mem_env
                   [\<lparr>activity_id = VId 2, arrangement_id = VNone, additional_properties = VNone,
             other_fields = import_fields\<rparr>] ''ds'' demo)))
   \<and> (\<exists>ids. length ids = 2 \<and> ids ! 1 = VNone
          \<and> snd (scenario_save_scenario mem_env
                    \<lparr>scenario_activity_executions =
                        [\<lparr>activity_id = VId 2, arrangement_id = VNone, additional_properties = VNone,
             other_fields = import_fields\<rparr>,
                         \<lparr>activity_id = VId 77, arrangement_id = VNone, additional_properties = VNone,
             other_fields = import_fields\<rparr>],
                      scenario_experiment_id = VId 1, scenario_other_fields = import_fields\<rparr> ''ds'' demo)
              = snd (mongo_create_document_from_dict mem_env
                       (VDict (upd ''activity_executions'' (VList ids)
                                 (scenario_in_dict
                                    \<lparr>scenario_activity_executions =
                                        [\<lparr>activity_id = VId 2, arrangement_id = VNone, additional_properties = VNone,
             other_fields = import_fields\<rparr>,
                                         \<lparr>activity_id = VId 77, arrangement_id = VNone, additional_properties = VNone,
             other_fields = import_fields\<rparr>],
                                      scenario_experiment_id = VId 1,
                                      scenario_other_fields = import_fields\<rparr>)))
                       SCENARIO ''ds''
                       (snd (scenario_save_activity_executions mem_env
                               [\<lparr>activity_id = VId 2, arrangement_id = VNone, additional_properties = VNone,
             other_fields = import_fields\<rparr>] ''ds'' demo))))
   \<and> documents (snd (scenario_save_scenario mem_env
                        \<lparr>scenario_activity_executions =
                            [\<lparr>activity_id = VId 2, arrangement_id = VNone, additional_properties = VNone,
             other_fields = import_fields\<rparr>,
                             \<lparr>activity_id = VId 77, arrangement_id = VNone, additional_properties = VNone,
             other_fields = import_fields\<rparr>],
                          scenario_experiment_id = VId 1, scenario_other_fields = import_fields\<rparr>
                        ''ds'' demo)) ''ds'' SCENARIO
       = [VDict [(''id'', VId 5), (''experiment_id'', VId 1),
                 (''activity_executions'', VList [VId 11, VId 12, VId 13])],
          VDict [(''activity_executions'', VList [VId 100, VNone]),
                 (''experiment_id'', VId 1), (''external_id'', VNone),
                 (''import_job_id'', VNone), (''import_timestamp'', VNone),
                 (''id'', VId 101)]]
   \<and> fst (scenario_save_scenario mem_env
               \<lparr>scenario_activity_executions =
                     [\<lparr>activity_id = VId 2, arrangement_id = VNone, additional_properties = VNone,
             other_fields = import_fields\<rparr>,
                      \<lparr>activity_id = VId 77, arrangement_id = VNone, additional_properties = VNone,
             other_fields = import_fields\<rparr>],
                   scenario_experiment_id = VId 1, scenario_other_fields = import_fields\<rparr>
               ''ds'' demo) = Inl ValidationError"
proof -
  let ?ae = "\<lparr>activity_id = VId 2, arrangement_id = VNone, additional_properties = VNone,
             other_fields = import_fields\<rparr>"
  let ?bad = "\<lparr>activity_id = VId 77, arrangement_id = VNone, additional_properties = VNone,
             other_fields = import_fields\<rparr>"
  let ?sc = "\<lparr>scenario_activity_executions = [?ae, ?bad], scenario_experiment_id = VId 1,
               scenario_other_fields = import_fields\<rparr>"
  let ?saved = "scenario_save_activity_executions mem_env [?ae] ''ds'' demo"
  have resolves: "\<not> is_NotFoundByIdModel
                        (experiment_get_experiment mem_env (VId 1) ''ds'' 0 None demo)"
    by (simp add: mem_simps)
  then have h1: "scenario_experiment_id ?sc = VNone
      \<or> \<not> is_NotFoundByIdModel
            (experiment_get_experiment mem_env (scenario_experiment_id ?sc) ''ds'' 0 None demo)"
    by simp
  have h2: "scenario_activity_executions ?sc = [?ae] @ ?bad # []"
    by simp
  have h3: "?saved = (fst ?saved, snd ?saved)"
    by simp
  have missing: "is_NotFoundByIdModel (activity_get_activity mem_env (VId 77) ''ds'' (snd ?saved))"
    by (simp add: ae_save_activity_execution_def activity_execution_in_dict_def Let_def
        mem_simps)
  then have h4:
    "(activity_id ?bad \<noteq> VNone
        \<and> is_NotFoundByIdModel
             (activity_get_activity mem_env (activity_id ?bad) ''ds'' (snd ?saved)))
     \<or> (arrangement_id ?bad \<noteq> VNone
        \<and> is_NotFoundByIdModel
             (arrangement_get_arrangement mem_env (arrangement_id ?bad) ''ds'' (snd ?saved)))"
    by simp
  have h5: "scenario_save_activity_executions mem_env [] ''ds'' (snd ?saved) = ([], snd ?saved)"
    by simp
  from save_scenario_stores_null_id [OF h1 h2 h3 h4 h5]
  obtain ids where ids: "length ids = length ([?ae] @ ?bad # [])" "ids ! length [?ae] = VNone"
    "snd (scenario_save_scenario mem_env ?sc ''ds'' demo)
       = snd (mongo_create_document_from_dict mem_env
                (VDict (upd ''activity_executions'' (VList ids) (scenario_in_dict ?sc)))
                SCENARIO ''ds'' (snd ?saved))"
    by blast
  have stored: "\<exists>ids. length ids = 2 \<and> ids ! 1 = VNone
          \<and> snd (scenario_save_scenario mem_env ?sc ''ds'' demo)
              = snd (mongo_create_document_from_dict mem_env
                       (VDict (upd ''activity_executions'' (VList ids) (scenario_in_dict ?sc)))
                       SCENARIO ''ds'' (snd ?saved))"
    using ids by (intro exI [of _ ids]) simp
  have written: "documents (snd (scenario_save_scenario mem_env ?sc ''ds'' demo)) ''ds'' SCENARIO
       = [VDict [(''id'', VId 5), (''experiment_id'', VId 1),
                 (''activity_executions'', VList [VId 11, VId 12, VId 13])],
          VDict [(''activity_executions'', VList [VId 100, VNone]),
                 (''experiment_id'', VId 1), (''external_id'', VNone),
                 (''import_job_id'', VNone), (''import_timestamp'', VNone),
                 (''id'', VId 101)]]"
    by (simp add: scenario_save_scenario_def ae_save_activity_execution_def
        activity_execution_in_dict_def scenario_in_dict_def errors_out_def Let_def mem_simps)
  have raised: "fst (scenario_save_scenario mem_env ?sc ''ds'' demo) = Inl ValidationError"
    by (simp add: scenario_save_scenario_def ae_save_activity_execution_def
        activity_execution_in_dict_def scenario_in_dict_def errors_out_def Let_def mem_simps)
  from resolves missing stored written raised show ?thesis
    by blast
qed


end
